theory Spec2Isabelle
  imports
    Complex_Main
    "HOL-Library.Multiset"
    "HOL-Library.Signed_Division"
    "HOL-Library.Char_ord"
    "HOL-Library.List_Lexorder"
begin

unbundle bit_operations_syntax

section \<open>Pixel types and the image description\<close>

text \<open>
  The development embeds the OpenEXR reader \<open>OpenEXRInput\<close> of
  \<^verbatim>\<open>src/ffmpeg.imageio/ffmpeg_pipe_output.cpp\<close>. C++ \<open>int\<close> values are HOL
  integers: signed overflow is undefined in C++, so no wrap-around is modelled, and \<open>/\<close>
  and \<open>%\<close> are the truncating \<open>sdiv\<close> and \<open>smod\<close>. \<open>float\<close> values are reals: the
  reader only compares them with zero, takes \<open>fabsf\<close> and stores them.
\<close>

datatype exr_pixel_type_t = EXR_PIXEL_UINT | EXR_PIXEL_HALF | EXR_PIXEL_FLOAT

datatype TypeDesc = TypeUnknown | TypeUInt | TypeHalf | TypeFloat

fun TypeDesc_from_ImfPixelType :: "exr_pixel_type_t \<Rightarrow> TypeDesc" where
  "TypeDesc_from_ImfPixelType EXR_PIXEL_UINT = TypeUInt"
| "TypeDesc_from_ImfPixelType EXR_PIXEL_HALF = TypeHalf"
| "TypeDesc_from_ImfPixelType EXR_PIXEL_FLOAT = TypeFloat"

text \<open>
  Modelled from the spec: \<open>TypeDesc::size\<close> and \<open>TypeDesc::basetype_merge\<close> are declared in
  OpenImageIO's \<open>typedesc.h\<close>, which is not part of the source file. The three channel
  encodings of the data model take 4, 2 and 4 bytes; merging two different known types
  among them widens to float.
\<close>

fun typedesc_size :: "TypeDesc \<Rightarrow> int" where
  "typedesc_size TypeUnknown = 0"
| "typedesc_size TypeUInt = 4"
| "typedesc_size TypeHalf = 2"
| "typedesc_size TypeFloat = 4"

definition basetype_merge :: "TypeDesc \<Rightarrow> TypeDesc \<Rightarrow> TypeDesc" where
  "basetype_merge a b =
     (if a = b then a
      else if a = TypeUnknown then b
      else if b = TypeUnknown then a
      else TypeFloat)"

text \<open>
  \<open>ImageSpec\<close>, with the fields the reader touches. The fields \<open>x\<close>, \<open>y\<close>, \<open>z\<close>,
  \<open>width\<close>, \<open>height\<close>, \<open>depth\<close>, \<open>format\<close> and \<open>deep\<close> carry the prefix \<open>spec_\<close>.
  The attribute dictionary (\<open>spec.attribute\<close>) is not modelled.
\<close>

record ImageSpec =
  spec_x :: int
  spec_y :: int
  spec_z :: int
  spec_width :: int
  spec_height :: int
  spec_depth :: int
  full_x :: int
  full_y :: int
  full_z :: int
  full_width :: int
  full_height :: int
  full_depth :: int
  tile_width :: int
  tile_height :: int
  tile_depth :: int
  nchannels :: int
  spec_format :: TypeDesc
  channelformats :: "TypeDesc list"
  channelnames :: "string list"
  alpha_channel :: int
  z_channel :: int
  spec_deep :: bool

text \<open>
  Modelled from the spec: the default constructor \<open>ImageSpec()\<close> and the accessors
  \<open>channelformat\<close>, \<open>channel_name\<close> and \<open>pixel_bytes\<close> live in OpenImageIO's \<open>imageio.h\<close>.
\<close>

definition ImageSpec_default :: ImageSpec where
  "ImageSpec_default =
     \<lparr> spec_x = 0, spec_y = 0, spec_z = 0, spec_width = 0, spec_height = 0, spec_depth = 1,
       full_x = 0, full_y = 0, full_z = 0, full_width = 0, full_height = 0, full_depth = 0,
       tile_width = 0, tile_height = 0, tile_depth = 1, nchannels = 0,
       spec_format = TypeUnknown, channelformats = [], channelnames = [],
       alpha_channel = -1, z_channel = -1, spec_deep = False \<rparr>"

definition channelformat :: "ImageSpec \<Rightarrow> int \<Rightarrow> TypeDesc" where
  "channelformat spec chan =
     (if 0 \<le> chan \<and> chan < int (length (channelformats spec))
      then channelformats spec ! nat chan else spec_format spec)"



section \<open>Channel catalogue\<close>

record exr_attr_chlist_entry_t =
  name_str :: string
  pixel_type :: exr_pixel_type_t
  x_sampling :: int
  y_sampling :: int

fun find_last_of :: "char \<Rightarrow> string \<Rightarrow> nat \<Rightarrow> nat option \<Rightarrow> nat option" where
  "find_last_of ch [] i found = found"
| "find_last_of ch (c # cs) i found =
     find_last_of ch cs (Suc i) (if c = ch then Some i else found)"

definition split_name :: "string \<Rightarrow> string \<times> string" where
  "split_name fullname =
     (case find_last_of CHR ''.'' fullname 0 None of
        None \<Rightarrow> ([], fullname)
      | Some dot \<Rightarrow> (take (dot + 1) fullname, drop (dot + 1) fullname))"

text \<open>
  \<open>ChanNameHolder\<close>; the field \<open>datatype\<close> is called \<open>chan_datatype\<close>, and
  \<open>split_name\<close> returns the pair (layer, suffix) that the source writes through references.
\<close>

record ChanNameHolder =
  fullname :: string
  layer :: string
  suffix :: string
  exr_channel_number :: int
  special_index :: int
  exr_data_type :: exr_pixel_type_t
  chan_datatype :: TypeDesc
  xSampling :: int
  ySampling :: int

definition new_ChanNameHolder :: "int \<Rightarrow> exr_attr_chlist_entry_t \<Rightarrow> ChanNameHolder" where
  "new_ChanNameHolder n exrchan =
     \<lparr> fullname = name_str exrchan,
       layer = fst (split_name (name_str exrchan)),
       suffix = snd (split_name (name_str exrchan)),
       exr_channel_number = n,
       special_index = 10000,
       exr_data_type = pixel_type exrchan,
       chan_datatype = TypeDesc_from_ImfPixelType (pixel_type exrchan),
       xSampling = x_sampling exrchan,
       ySampling = y_sampling exrchan \<rparr>"

text \<open>
  Modelled from the spec: \<open>Strutil::iequals\<close> is declared in OpenImageIO's \<open>strutil.h\<close>;
  the spec calls it a case-insensitive comparison, taken here over the ASCII letters.
\<close>

definition to_lower :: "char \<Rightarrow> char" where
  "to_lower c =
     (case map_of (zip ''ABCDEFGHIJKLMNOPQRSTUVWXYZ'' ''abcdefghijklmnopqrstuvwxyz'') c of
        Some l \<Rightarrow> l
      | None \<Rightarrow> c)"

definition iequals :: "string \<Rightarrow> string \<Rightarrow> bool" where
  "iequals a b = (map to_lower a = map to_lower b)"

definition special :: "string list" where
  "special =
     [''R'', ''Red'', ''G'', ''Green'', ''B'', ''Blue'', ''Y'',
      ''real'', ''imag'', ''A'', ''Alpha'', ''AR'', ''RA'', ''AG'',
      ''GA'', ''AB'', ''BA'', ''Z'', ''Depth'', ''Zback'']"

definition special_xyz :: "string list" where
  "special_xyz =
     [''R'', ''Red'', ''G'', ''Green'', ''B'', ''Blue'',
      ''X'', ''Y'', ''Z'', ''real'', ''imag'', ''A'', ''Alpha'', ''AR'',
      ''RA'', ''AG'', ''GA'', ''AB'', ''BA'', ''Depth'', ''Zback'']"

text \<open>
  The loop \<open>for (int i = 0; special[i]; ++i)\<close> of both \<open>compute_special_index\<close> routines:
  the first entry that matches the suffix yields its index, no match yields nothing.
\<close>

fun special_scan :: "string list \<Rightarrow> int \<Rightarrow> string \<Rightarrow> int option" where
  "special_scan [] i sfx = None"
| "special_scan (s # ss) i sfx =
     (if iequals sfx s then Some i else special_scan ss (i + 1) sfx)"

definition compute_special_index :: "ChanNameHolder \<Rightarrow> ChanNameHolder" where
  "compute_special_index ch =
     (case special_scan special 0 (suffix ch) of
        Some i \<Rightarrow> ch\<lparr>special_index := i\<rparr>
      | None \<Rightarrow> ch)"

definition compute_special_index_xyz :: "ChanNameHolder \<Rightarrow> ChanNameHolder" where
  "compute_special_index_xyz ch =
     (case special_scan special_xyz 0 (suffix ch) of
        Some i \<Rightarrow> ch\<lparr>special_index := i\<rparr>
      | None \<Rightarrow> ch)"

definition compare_layer :: "ChanNameHolder \<Rightarrow> ChanNameHolder \<Rightarrow> bool" where
  "compare_layer a b = (layer a < layer b)"

definition compare_cnh :: "ChanNameHolder \<Rightarrow> ChanNameHolder \<Rightarrow> bool" where
  "compare_cnh a b =
     (if layer a < layer b then True
      else if layer a > layer b then False
      else if special_index a < special_index b then True
      else if special_index a > special_index b then False
      else suffix a < suffix b)"

fun suffixfound :: "string \<Rightarrow> ChanNameHolder list \<Rightarrow> bool" where
  "suffixfound nm [] = False"
| "suffixfound nm (c # chans) = (if iequals nm (suffix c) then True else suffixfound nm chans)"

text \<open>
  \<open>std::sort\<close> belongs to the C++ library. The standard promises of its result only that
  it is a rearrangement of the input in which no element is followed by one that compares
  less; \<open>std_sort_admits cmp xs ys\<close> says that \<open>ys\<close> is such a result for input \<open>xs\<close>.
  The reader is parameterised by the sorting procedure \<open>srt\<close>, and \<open>std_sort_ok\<close> is the
  standard's promise for the two comparison functions the reader sorts with.
\<close>

definition std_sort_admits :: "('a \<Rightarrow> 'a \<Rightarrow> bool) \<Rightarrow> 'a list \<Rightarrow> 'a list \<Rightarrow> bool" where
  "std_sort_admits cmp xs ys =
     (mset ys = mset xs \<and> sorted_wrt (\<lambda>a b. \<not> cmp b a) ys)"

type_synonym cnh_sort =
  "(ChanNameHolder \<Rightarrow> ChanNameHolder \<Rightarrow> bool) \<Rightarrow> ChanNameHolder list \<Rightarrow> ChanNameHolder list"

definition std_sort_ok :: "cnh_sort \<Rightarrow> bool" where
  "std_sort_ok srt =
     (\<forall>xs. std_sort_admits compare_layer xs (srt compare_layer xs)
         \<and> std_sort_admits compare_cnh xs (srt compare_cnh xs))"

text \<open>
  One round of the loop over layers in \<open>query_channels\<close>: \<open>layerspan\<close> is the first channel
  together with the channels that follow it and carry the same layer; \<open>index_layerspan\<close>
  assigns the special indices from the table the span calls for.
\<close>

definition index_layerspan :: "ChanNameHolder list \<Rightarrow> ChanNameHolder list" where
  "index_layerspan layerspan =
     (if suffixfound ''X'' layerspan
         \<and> (suffixfound ''Y'' layerspan \<or> suffixfound ''Z'' layerspan)
      then map compute_special_index_xyz layerspan
      else map compute_special_index layerspan)"

function sort_layers :: "cnh_sort \<Rightarrow> ChanNameHolder list \<Rightarrow> ChanNameHolder list" where
  "sort_layers srt [] = []"
| "sort_layers srt (c # rest) =
     (let layerspan = c # takeWhile (\<lambda>d. layer c = layer d) rest
      in srt compare_cnh (index_layerspan layerspan)
         @ sort_layers srt (dropWhile (\<lambda>d. layer c = layer d) rest))"
  by pat_completeness auto
termination
  by (relation "measure (\<lambda>(srt, cnh). length cnh)")
     (auto simp: length_dropWhile_le less_Suc_eq_le)


section \<open>Parts and their headers\<close>

text \<open>
  The text handed to \<open>errorf\<close> is kept as a constructor with the values that the format
  string prints. Modelled from the spec: \<open>ImageInput::errorf\<close> (OpenImageIO's
  \<open>imageio.h\<close>) adds its message to the pending ones, here the list \<open>m_errors\<close>.
\<close>

datatype error_msg =
    NoChannelsFound
  | SubsampledChannel string int int
  | UnableToInitializePart
  | NoOpenFile
  | CouldNotOpen

datatype exr_storage_t =
  EXR_STORAGE_SCANLINE | EXR_STORAGE_TILED | EXR_STORAGE_DEEP_SCANLINE | EXR_STORAGE_DEEP_TILED

datatype exr_tile_level_mode_t =
  EXR_TILE_ONE_LEVEL | EXR_TILE_MIPMAP_LEVELS | EXR_TILE_RIPMAP_LEVELS

datatype exr_tile_round_mode_t = EXR_TILE_ROUND_DOWN | EXR_TILE_ROUND_UP

datatype exr_envmap_t = EXR_ENVMAP_LATLONG | EXR_ENVMAP_CUBE

record exr_attr_box2i_t =
  min_x :: int
  min_y :: int
  max_x :: int
  max_y :: int

text \<open>
  The OpenEXR library is outside the source file. \<open>exr_part\<close> holds what its header
  queries answer for one part; \<open>None\<close> stands for a result other than
  \<open>EXR_ERR_SUCCESS\<close>. \<open>get_attributes\<close> tells whether \<open>exr_get_attribute_count\<close> and
  every \<open>exr_get_attribute_by_index\<close> succeed; the attributes themselves only feed the
  attribute dictionary.
\<close>

record exr_part =
  get_data_window :: "exr_attr_box2i_t option"
  get_display_window :: "exr_attr_box2i_t option"
  get_storage :: "exr_storage_t option"
  get_tile_descriptor :: "(int \<times> int \<times> exr_tile_level_mode_t \<times> exr_tile_round_mode_t) option"
  get_tile_levels :: "(int \<times> int) option"
  get_channels :: "exr_attr_chlist_entry_t list option"
  attr_get_envmap :: "exr_envmap_t option"
  get_attributes :: bool

text \<open>\<open>PartInfo\<close>; its field \<open>spec\<close> is called \<open>part_spec\<close>.\<close>

record PartInfo =
  initialized :: bool
  part_spec :: ImageSpec
  topwidth :: int
  topheight :: int
  levelmode :: exr_tile_level_mode_t
  roundingmode :: exr_tile_round_mode_t
  cubeface :: bool
  nmiplevels :: int
  top_datawindow :: exr_attr_box2i_t
  top_displaywindow :: exr_attr_box2i_t
  pixeltype :: "exr_pixel_type_t list"
  chanbytes :: "int list"

subsection \<open>\<open>query_channels\<close>\<close>

text \<open>
  The state of the last loop of \<open>query_channels\<close>, which publishes the sorted channels
  into the part: the part itself, \<open>all_one_format\<close>, \<open>ok\<close> and the reader's error list.
\<close>

record publish_state =
  pub_part :: PartInfo
  all_one_format :: bool
  pub_ok :: bool
  pub_errors :: "error_msg list"

definition publish_channel ::
  "TypeDesc \<Rightarrow> ChanNameHolder \<Rightarrow> int \<Rightarrow> publish_state \<Rightarrow> publish_state" where
  "publish_channel datatype0 h c st =
     (let part = pub_part st;
          sp = part_spec part;
          sp = sp\<lparr> channelnames := channelnames sp @ [fullname h],
                   channelformats := channelformats sp @ [chan_datatype h],
                   spec_format := basetype_merge (spec_format sp) (chan_datatype h) \<rparr>;
          part = part\<lparr> pixeltype := pixeltype part @ [exr_data_type h],
                       chanbytes := chanbytes part @ [typedesc_size (chan_datatype h)] \<rparr>;
          one = (all_one_format st \<and> chan_datatype h = datatype0);
          sp = (if alpha_channel sp < 0
                   \<and> (iequals (suffix h) ''A'' \<or> iequals (suffix h) ''Alpha'')
                then sp\<lparr>alpha_channel := c\<rparr> else sp);
          sp = (if z_channel sp < 0
                   \<and> (iequals (suffix h) ''Z'' \<or> iequals (suffix h) ''Depth'')
                then sp\<lparr>z_channel := c\<rparr> else sp);
          st = st\<lparr> pub_part := part\<lparr>part_spec := sp\<rparr>, all_one_format := one \<rparr>
      in if xSampling h \<noteq> 1 \<or> ySampling h \<noteq> 1
         then st\<lparr> pub_ok := False,
                  pub_errors := pub_errors st
                                @ [SubsampledChannel (fullname h) (xSampling h) (ySampling h)] \<rparr>
         else st)"

fun publish_channels ::
  "TypeDesc \<Rightarrow> ChanNameHolder list \<Rightarrow> int \<Rightarrow> publish_state \<Rightarrow> publish_state" where
  "publish_channels datatype0 [] c st = st"
| "publish_channels datatype0 (h # hs) c st =
     publish_channels datatype0 hs (c + 1) (publish_channel datatype0 h c st)"

text \<open>
  \<open>query_channels\<close> takes the answer of \<open>exr_get_channels\<close>, the part and the reader's error
  list, and returns its result, the part and the error list.
\<close>

definition query_channels ::
  "cnh_sort \<Rightarrow> exr_attr_chlist_entry_t list option \<Rightarrow> PartInfo \<Rightarrow> error_msg list
     \<Rightarrow> bool \<times> PartInfo \<times> error_msg list" where
  "query_channels srt chlist part errs =
     (let part = part\<lparr>part_spec := (part_spec part)\<lparr>nchannels := 0\<rparr>\<rparr>
      in case chlist of
           None \<Rightarrow> (False, part, errs)
         | Some entries \<Rightarrow>
             (let cnh = map2 new_ChanNameHolder (map int [0 ..< length entries]) entries;
                  part = part\<lparr>part_spec := (part_spec part)\<lparr>nchannels := int (length cnh)\<rparr>\<rparr>
              in if nchannels (part_spec part) = 0
                 then (False, part, errs @ [NoChannelsFound])
                 else
                   (let cnh = srt compare_layer cnh;
                        cnh = sort_layers srt cnh;
                        part = part\<lparr>part_spec := (part_spec part)\<lparr>spec_format := TypeUnknown\<rparr>\<rparr>;
                        st = publish_channels (chan_datatype (hd cnh)) cnh 0
                               \<lparr> pub_part = part, all_one_format = True,
                                 pub_ok = True, pub_errors = errs \<rparr>;
                        part = pub_part st;
                        part = (if all_one_format st
                                then part\<lparr>part_spec := (part_spec part)\<lparr>channelformats := []\<rparr>\<rparr>
                                else part)
                    in (pub_ok st, part, pub_errors st))))"

subsection \<open>\<open>parse_header\<close>\<close>

definition parse_header ::
  "cnh_sort \<Rightarrow> exr_part \<Rightarrow> PartInfo \<Rightarrow> error_msg list \<Rightarrow> bool \<times> PartInfo \<times> error_msg list" where
  "parse_header srt hdr part errs =
     (if initialized part then (True, part, errs)
      else
        (let part = part\<lparr>part_spec := ImageSpec_default\<rparr>
         in case get_data_window hdr of
              None \<Rightarrow> (False, part, errs)
            | Some dw \<Rightarrow>
         (let part = part\<lparr>top_datawindow := dw\<rparr>
          in case get_display_window hdr of
               None \<Rightarrow> (False, part, errs)
             | Some disp \<Rightarrow>
         (let part = part\<lparr>top_displaywindow := disp\<rparr>;
              sp = (part_spec part)
                     \<lparr> spec_x := min_x dw, spec_y := min_y dw, spec_z := 0,
                       spec_width := max_x dw - min_x dw + 1,
                       spec_height := max_y dw - min_y dw + 1,
                       spec_depth := 1 \<rparr>;
              part = part\<lparr>topwidth := spec_width sp, topheight := spec_height sp\<rparr>;
              sp = sp\<lparr> full_x := min_x disp, full_y := min_y disp, full_z := 0,
                       full_width := max_x disp - min_x disp + 1,
                       full_height := max_y disp - min_y disp + 1,
                       full_depth := 1, tile_depth := 1 \<rparr>;
              part = part\<lparr>part_spec := sp\<rparr>
          in case get_storage hdr of
               None \<Rightarrow> (False, part, errs)
             | Some storage \<Rightarrow>
         (let tiled = (if storage = EXR_STORAGE_TILED \<or> storage = EXR_STORAGE_DEEP_TILED
                       then get_tile_descriptor hdr else None);
              levels = (case tiled of
                          None \<Rightarrow> Some (1, 1)
                        | Some td \<Rightarrow> get_tile_levels hdr);
              part = (case tiled of
                        None \<Rightarrow>
                          part\<lparr> part_spec := (part_spec part)\<lparr>tile_width := 0, tile_height := 0\<rparr>,
                                levelmode := EXR_TILE_ONE_LEVEL \<rparr>
                      | Some (txsz, tysz, lm, rm) \<Rightarrow>
                          part\<lparr> part_spec := (part_spec part)
                                               \<lparr>tile_width := txsz, tile_height := tysz\<rparr>,
                                levelmode := lm, roundingmode := rm \<rparr>)
          in case levels of
               None \<Rightarrow> (False, part, errs)
             | Some (levelsx, levelsy) \<Rightarrow>
         (let part = part\<lparr>nmiplevels := max levelsx levelsy\<rparr>
          in case query_channels srt (get_channels hdr) part errs of
               (False, part, errs) \<Rightarrow> (False, part, errs)
             | (True, part, errs) \<Rightarrow>
         (let part = part\<lparr> part_spec := (part_spec part)
                                \<lparr>spec_deep := (storage = EXR_STORAGE_DEEP_TILED
                                               \<or> storage = EXR_STORAGE_DEEP_SCANLINE)\<rparr> \<rparr>;
              part = part\<lparr>cubeface := (attr_get_envmap hdr = Some EXR_ENVMAP_CUBE)\<rparr>
          in if \<not> get_attributes hdr then (False, part, errs)
             else (True, part\<lparr>initialized := True\<rparr>, errs))))))))"


subsection \<open>\<open>compute_mipres\<close>\<close>

text \<open>
  The loop \<open>for (int m = miplevel; m; --m)\<close> stops only when \<open>m\<close> reaches zero, so for a
  negative \<open>miplevel\<close> it does not return in the model (\<open>None\<close>).
\<close>

partial_function (option) mip_halve ::
  "exr_tile_round_mode_t \<Rightarrow> int \<Rightarrow> int \<Rightarrow> int \<Rightarrow> (int \<times> int) option" where
  "mip_halve rm m w h =
     (if m = 0 then Some (w, h)
      else mip_halve rm (m - 1)
             (max 1 (if rm = EXR_TILE_ROUND_DOWN then w sdiv 2 else (w + 1) sdiv 2))
             (max 1 (if rm = EXR_TILE_ROUND_DOWN then h sdiv 2 else (h + 1) sdiv 2)))"

declare mip_halve.simps [code]

definition compute_mipres :: "PartInfo \<Rightarrow> int \<Rightarrow> ImageSpec \<Rightarrow> ImageSpec option" where
  "compute_mipres part miplevel sp =
     (if levelmode part = EXR_TILE_ONE_LEVEL then Some sp
      else
        case (if levelmode part = EXR_TILE_MIPMAP_LEVELS
              then mip_halve (roundingmode part) miplevel (topwidth part) (topheight part)
              else Some (topwidth part, topheight part)) of
          None \<Rightarrow> None
        | Some (w, h) \<Rightarrow>
            (let sp = sp\<lparr>spec_width := w, spec_height := h\<rparr>;
                 datawindow = top_datawindow part;
                 displaywindow = top_displaywindow part;
                 sp = sp\<lparr>spec_x := min_x datawindow, spec_y := min_y datawindow\<rparr>;
                 sp = (if miplevel = 0
                       then sp\<lparr> full_x := min_x displaywindow,
                                full_y := min_y displaywindow,
                                full_width := max_x displaywindow - min_x displaywindow + 1,
                                full_height := max_y displaywindow - min_y displaywindow + 1 \<rparr>
                       else sp\<lparr> full_x := spec_x sp, full_y := spec_y sp,
                                full_width := spec_width sp, full_height := spec_height sp \<rparr>)
             in Some (if cubeface part then sp\<lparr>full_width := w, full_height := w\<rparr> else sp)))"

section \<open>The reader\<close>

text \<open>
  \<open>std::vector<float>\<close> as the reader uses it: \<open>vec_size\<close> elements are live,
  \<open>vec_capacity\<close> slots are allocated, and \<open>vec_store\<close> is the storage. \<open>reserve\<close> grows the
  capacity only; \<open>operator[]\<close> does no bounds check and leaves the size alone, so a write
  through it is \<open>vec_set\<close>. \<open>vec_elems\<close> lists the live elements.
\<close>

record float_vector =
  vec_size :: nat
  vec_capacity :: nat
  vec_store :: "nat \<Rightarrow> real"

definition vec_elems :: "float_vector \<Rightarrow> real list" where
  "vec_elems v = map (vec_store v) [0 ..< vec_size v]"

definition vec_empty :: "float_vector \<Rightarrow> bool" where
  "vec_empty v = (vec_size v = 0)"

definition vec_clear :: "float_vector \<Rightarrow> float_vector" where
  "vec_clear v = v\<lparr>vec_size := 0\<rparr>"

definition vec_reserve :: "nat \<Rightarrow> float_vector \<Rightarrow> float_vector" where
  "vec_reserve n v = v\<lparr>vec_capacity := max (vec_capacity v) n\<rparr>"

definition vec_set :: "nat \<Rightarrow> real \<Rightarrow> float_vector \<Rightarrow> float_vector" where
  "vec_set i a v = v\<lparr>vec_store := (vec_store v)(i := a)\<rparr>"

definition vec_assign :: "real list \<Rightarrow> float_vector" where
  "vec_assign xs =
     \<lparr> vec_size = length xs, vec_capacity = length xs,
       vec_store = (\<lambda>i. if i < length xs then xs ! i else 0) \<rparr>"

text \<open>
  Tile memory: the caller's buffer is addressed in bytes from \<open>data\<close>, and a cell holds the
  value last stored at that address together with its encoding.
\<close>

datatype cell = Unset | AsFloat real | AsHalf real | AsUInt nat

type_synonym buffer = "int \<Rightarrow> cell"

record exr_chunk_block_info_t =
  start_x :: int
  start_y :: int
  chunk_width :: int
  chunk_height :: int

record exr_coding_channel_info_t =
  coding_channel_name :: string
  decode_to_ptr :: "int option"
  user_pixel_stride :: int
  user_line_stride :: int

record exr_decode_pipeline_t =
  channels :: "exr_coding_channel_info_t list"
  chunk :: "exr_chunk_block_info_t option"

text \<open>
  The chunk codec of the OpenEXR library, for one part. \<open>None\<close> and \<open>False\<close> stand for a
  result other than \<open>EXR_ERR_SUCCESS\<close>. On the scanline path the model counts addresses in
  scanlines and \<open>'r\<close> is the content of one scanline of the requested channels: a decode
  run yields the scanlines of the chunk. On the tile path a decode run acts on the
  caller's buffer through the pointers and strides bound in the pipeline, and returns
  whether it succeeded together with the buffer it leaves.
\<close>

record 'r exr_scanline_codec =
  get_scanlines_per_chunk :: "int option"
  read_scanline_block_info :: "int \<Rightarrow> exr_chunk_block_info_t option"
  scan_decoding_initialize :: "exr_chunk_block_info_t \<Rightarrow> bool"
  scan_decoding_update :: "exr_chunk_block_info_t \<Rightarrow> bool"
  scan_decoding_choose_default_routines :: bool
  scan_decoding_run :: "exr_chunk_block_info_t \<Rightarrow> 'r list option"

record exr_tile_codec =
  get_level_sizes :: "int \<Rightarrow> (int \<times> int) option"
  read_tile_block_info :: "int \<Rightarrow> int \<Rightarrow> int \<Rightarrow> exr_chunk_block_info_t option"
  decoding_initialize ::
    "exr_chunk_block_info_t \<Rightarrow> exr_decode_pipeline_t \<Rightarrow> exr_decode_pipeline_t option"
  decoding_update ::
    "exr_chunk_block_info_t \<Rightarrow> exr_decode_pipeline_t \<Rightarrow> exr_decode_pipeline_t option"
  decoding_choose_default_routines :: "exr_decode_pipeline_t \<Rightarrow> bool"
  decoding_run :: "exr_decode_pipeline_t \<Rightarrow> buffer \<Rightarrow> bool \<times> buffer"

record 'r exr_context =
  get_count :: "int option"
  get_part :: "int \<Rightarrow> exr_part"
  scanline_codec :: "int \<Rightarrow> 'r exr_scanline_codec"
  tile_codec :: "int \<Rightarrow> exr_tile_codec"

text \<open>
  The members of \<open>OpenEXRInput\<close>, with \<open>m_spec\<close> of the base class and the pending error
  messages. \<open>m_exr_context\<close> is \<open>None\<close> for the null pointer.
\<close>

record 'r OpenEXRInput =
  m_parts :: "PartInfo list"
  m_subimage :: int
  m_miplevel :: int
  m_exr_context :: "'r exr_context option"
  m_nsubimages :: int
  m_missingcolor :: float_vector
  m_spec :: ImageSpec
  m_errors :: "error_msg list"

subsection \<open>\<open>seek_subimage\<close>\<close>

text \<open>
  Every query on a null context fails; \<open>context_part\<close> gives the header answers that
  \<open>parse_header\<close> receives through \<open>m_exr_context\<close>.
\<close>

definition context_part :: "'r exr_context option \<Rightarrow> int \<Rightarrow> exr_part" where
  "context_part ctxt subimage =
     (case ctxt of
        None \<Rightarrow> \<lparr> get_data_window = None, get_display_window = None, get_storage = None,
                  get_tile_descriptor = None, get_tile_levels = None, get_channels = None,
                  attr_get_envmap = None, get_attributes = False \<rparr>
      | Some c \<Rightarrow> get_part c subimage)"

text \<open>\<open>seek_subimage\<close> returns \<open>None\<close> only if \<open>compute_mipres\<close> does not return.\<close>

definition seek_subimage ::
  "cnh_sort \<Rightarrow> 'r OpenEXRInput \<Rightarrow> int \<Rightarrow> int \<Rightarrow> (bool \<times> 'r OpenEXRInput) option" where
  "seek_subimage srt st subimage miplevel =
     (if subimage < 0 \<or> subimage \<ge> m_nsubimages st then Some (False, st)
      else
        (let part = m_parts st ! nat subimage;
             (parsed, part, errs) =
                (if \<not> initialized part
                 then (case parse_header srt (context_part (m_exr_context st) subimage) part
                              (m_errors st) of
                         (False, part, errs) \<Rightarrow> (False, part, errs)
                       | (True, part, errs) \<Rightarrow> (True, part\<lparr>initialized := True\<rparr>, errs))
                 else (True, part, m_errors st));
             st = st\<lparr>m_parts := (m_parts st)[nat subimage := part], m_errors := errs\<rparr>
         in if \<not> parsed then Some (False, st)
            else
              (let st = st\<lparr>m_subimage := subimage\<rparr>
               in if miplevel < 0 \<or> miplevel \<ge> nmiplevels part then Some (False, st)
                  else
                    (let st = st\<lparr>m_miplevel := miplevel, m_spec := part_spec part\<rparr>
                     in if miplevel = 0 \<and> levelmode part = EXR_TILE_ONE_LEVEL
                        then Some (True, st)
                        else case compute_mipres part miplevel (m_spec st) of
                               None \<Rightarrow> None
                             | Some sp \<Rightarrow> Some (True, st\<lparr>m_spec := sp\<rparr>)))))"

definition current_subimage :: "'r OpenEXRInput \<Rightarrow> int" where
  "current_subimage st = m_subimage st"

definition current_miplevel :: "'r OpenEXRInput \<Rightarrow> int" where
  "current_miplevel st = m_miplevel st"


subsection \<open>\<open>init_part\<close>, \<open>open\<close> and \<open>close\<close>\<close>

text \<open>
  \<open>init_part\<close> returns the part's own \<open>spec\<close>, after seeking when the part is not yet
  initialized. The lock is not modelled: the model runs one call at a time.
\<close>

definition init_part ::
  "cnh_sort \<Rightarrow> 'r OpenEXRInput \<Rightarrow> int \<Rightarrow> int \<Rightarrow> (ImageSpec \<times> 'r OpenEXRInput) option" where
  "init_part srt st subimage miplevel =
     (if \<not> initialized (m_parts st ! nat subimage)
      then (case seek_subimage srt st subimage miplevel of
              None \<Rightarrow> None
            | Some (False, st) \<Rightarrow>
                Some (part_spec (m_parts st ! nat subimage),
                      st\<lparr>m_errors := m_errors st @ [UnableToInitializePart]\<rparr>)
            | Some (True, st) \<Rightarrow> Some (part_spec (m_parts st ! nat subimage), st))
      else Some (part_spec (m_parts st ! nat subimage), st))"

text \<open>
  \<open>PartInfo()\<close> sets \<open>initialized\<close> to false and default-constructs \<open>spec\<close>; the other
  members are indeterminate, and the model gives them the values below.
  \<open>resize_parts\<close> is \<open>m_parts.resize\<close>.
\<close>

definition new_PartInfo :: PartInfo where
  "new_PartInfo =
     \<lparr> initialized = False, part_spec = ImageSpec_default, topwidth = 0, topheight = 0,
       levelmode = EXR_TILE_ONE_LEVEL, roundingmode = EXR_TILE_ROUND_DOWN,
       cubeface = False, nmiplevels = 0,
       top_datawindow = \<lparr>min_x = 0, min_y = 0, max_x = 0, max_y = 0\<rparr>,
       top_displaywindow = \<lparr>min_x = 0, min_y = 0, max_x = 0, max_y = 0\<rparr>,
       pixeltype = [], chanbytes = [] \<rparr>"

definition resize_parts :: "nat \<Rightarrow> PartInfo list \<Rightarrow> PartInfo list" where
  "resize_parts n parts = take n parts @ replicate (n - length parts) new_PartInfo"

definition close_reader :: "'r OpenEXRInput \<Rightarrow> 'r OpenEXRInput" where
  "close_reader st =
     st\<lparr>m_exr_context := None, m_missingcolor := vec_clear (m_missingcolor st)\<rparr>"

text \<open>
  The value of the configuration attribute \<open>"oiio:missingcolor"\<close>: a string, or a numeric
  array given by the values that \<open>get_float\<close> returns for it.
\<close>

datatype ParamValue = StringValue string | NumericArray "real list"

text \<open>
  The part of \<open>open\<close> that captures the missing color. \<open>extract\<close> stands for
  \<open>Strutil::extract_from_list_string\<close> at type \<open>float\<close>, \<open>config_mc\<close> for the configuration
  attribute and \<open>global_mc\<close> for the global attribute \<open>"missingcolor"\<close>.
\<close>

definition open_missingcolor ::
  "(string \<Rightarrow> real list) \<Rightarrow> ParamValue option \<Rightarrow> string \<Rightarrow> float_vector \<Rightarrow> float_vector" where
  "open_missingcolor extract config_mc global_mc missingcolor =
     (case config_mc of
        Some (StringValue s) \<Rightarrow> vec_assign (extract s)
      | Some (NumericArray vals) \<Rightarrow>
          (let n = length vals;
               missingcolor = vec_clear missingcolor;
               missingcolor = vec_reserve n missingcolor
           in fold (\<lambda>i v. vec_set i (vals ! i) v) [0 ..< n] missingcolor)
      | None \<Rightarrow> if global_mc \<noteq> [] then vec_assign (extract global_mc) else missingcolor)"

text \<open>
  \<open>open\<close>: \<open>io_readable\<close> tells whether the stream is in read mode and \<open>start_read\<close> is the
  context that \<open>exr_start_read\<close> yields. The result is the return value, the reader and
  the value written to \<open>newspec\<close>, if any.
\<close>

definition open_reader ::
  "cnh_sort \<Rightarrow> (string \<Rightarrow> real list) \<Rightarrow> ParamValue option \<Rightarrow> string \<Rightarrow> bool
     \<Rightarrow> 'r exr_context option \<Rightarrow> 'r OpenEXRInput
     \<Rightarrow> (bool \<times> 'r OpenEXRInput \<times> ImageSpec option) option" where
  "open_reader srt extract config_mc global_mc io_readable start_read st =
     (let st = st\<lparr> m_missingcolor :=
                      open_missingcolor extract config_mc global_mc (m_missingcolor st),
                   m_spec := ImageSpec_default \<rparr>
      in if \<not> io_readable then Some (False, st\<lparr>m_errors := m_errors st @ [CouldNotOpen]\<rparr>, None)
         else case start_read of
                None \<Rightarrow> Some (False, st, None)
              | Some ctxt \<Rightarrow>
                  (let st = st\<lparr>m_exr_context := Some ctxt\<rparr>
                   in case get_count ctxt of
                        None \<Rightarrow> Some (False, st, None)
                      | Some n \<Rightarrow>
                          (let st = st\<lparr> m_nsubimages := n,
                                        m_parts := resize_parts (nat n) (m_parts st),
                                        m_subimage := -1, m_miplevel := -1 \<rparr>
                           in case seek_subimage srt st 0 0 of
                                None \<Rightarrow> None
                              | Some (True, st) \<Rightarrow> Some (True, st, Some (m_spec st))
                              | Some (False, st) \<Rightarrow> Some (False, close_reader st, None))))"

section \<open>Missing-data fill\<close>

text \<open>
  \<open>resize_float\<close> is \<open>std::vector<float>::resize(n, a)\<close> on the list of live elements.
\<close>

definition resize_float :: "nat \<Rightarrow> real \<Rightarrow> real list \<Rightarrow> real list" where
  "resize_float n a xs = take n xs @ replicate (n - length xs) a"

text \<open>
  The loop over the channels of one pixel, starting at address \<open>d\<close>: the state is the
  running address and the buffer.
\<close>

definition fill_channel ::
  "ImageSpec \<Rightarrow> real list \<Rightarrow> bool \<Rightarrow> int \<Rightarrow> int \<Rightarrow> int \<Rightarrow> int \<times> buffer \<Rightarrow> int \<times> buffer" where
  "fill_channel sp missingcolor stripe x y ch st =
     (let d = fst st; buf = snd st;
          v = missingcolor ! nat ch;
          v = (if stripe \<and> (x - y) AND 8 \<noteq> 0 then 0 else v);
          cf = channelformat sp ch;
          buf = (if cf = TypeFloat then buf(d := AsFloat v)
                 else if cf = TypeHalf then buf(d := AsHalf v)
                 else buf)
      in (d + typedesc_size cf, buf))"

definition fill_pixel ::
  "ImageSpec \<Rightarrow> real list \<Rightarrow> bool \<Rightarrow> int \<Rightarrow> int \<Rightarrow> int \<Rightarrow> int \<Rightarrow> int \<Rightarrow> buffer \<Rightarrow> buffer" where
  "fill_pixel sp missingcolor stripe chbegin chend x y d buf =
     snd (fold (fill_channel sp missingcolor stripe x y) [chbegin .. chend - 1] (d, buf))"

text \<open>
  \<open>check_fill_missing\<close>; \<open>data\<close> is the address of the region in the buffer. The unused
  parameters \<open>zbegin\<close> and \<open>zend\<close> are left out.
\<close>

definition check_fill_missing ::
  "'r OpenEXRInput \<Rightarrow> int \<Rightarrow> int \<Rightarrow> int \<Rightarrow> int \<Rightarrow> int \<Rightarrow> int \<Rightarrow> int \<Rightarrow> int \<Rightarrow> int
     \<Rightarrow> buffer \<Rightarrow> bool \<times> buffer" where
  "check_fill_missing st xbegin xend ybegin yend chbegin chend data xstride ystride buf =
     (if vec_empty (m_missingcolor st) then (False, buf)
      else
        (let missingcolor = vec_elems (m_missingcolor st);
             missingcolor = resize_float (nat chend) (last (vec_elems (m_missingcolor st)))
                              missingcolor;
             stripe = (missingcolor ! 0 < 0);
             missingcolor = (if stripe then missingcolor[0 := \<bar>missingcolor ! 0\<bar>]
                             else missingcolor)
         in (True,
             fold (\<lambda>y. fold (\<lambda>x. fill_pixel (m_spec st) missingcolor stripe chbegin chend x y
                                   (data + (y - ybegin) * ystride + (x - xbegin) * xstride))
                          [xbegin .. xend - 1])
                  [ybegin .. yend - 1] buf)))"

section \<open>Tile reads\<close>

















section \<open>Scanline reads\<close>

text \<open>
  On the scanline path addresses count scanlines: \<open>linedata\<close> and every pointer derived
  from it lie a multiple of \<open>scanlinebytes\<close> after \<open>data\<close>, and the scratch vector
  \<open>fullchunk\<close> holds \<open>scansperchunk\<close> scanlines. \<open>blank\<close> is the scanline of zero bytes that
  \<open>resize\<close> appends. The wiring of channels has no failure branch and is the same for every
  chunk of a call, so it is part of what a scanline holds.
\<close>

record 'r scan_state =
  scan_y :: int
  nlines :: int
  scan_first :: bool
  linedata :: int
  fullchunk :: "'r list"
  scan_buf :: "int \<Rightarrow> 'r"

definition resize_rows :: "nat \<Rightarrow> 'r \<Rightarrow> 'r list \<Rightarrow> 'r list" where
  "resize_rows n blank rows = take n rows @ replicate (n - length rows) blank"

text \<open>A decode run into the scratch vector, and one into the caller's buffer.\<close>

definition decode_to_scratch :: "'r list \<Rightarrow> 'r list \<Rightarrow> 'r list" where
  "decode_to_scratch rows scratch = take (length scratch) rows @ drop (length rows) scratch"

definition decode_to_lines :: "'r list \<Rightarrow> int \<Rightarrow> (int \<Rightarrow> 'r) \<Rightarrow> (int \<Rightarrow> 'r)" where
  "decode_to_lines rows dst buf =
     (\<lambda>a. if dst \<le> a \<and> a < dst + int (length rows) then rows ! nat (a - dst) else buf a)"

text \<open>\<open>memcpy (linedata, cdata + invalid * scanlinebytes, nlines * scanlinebytes)\<close>.\<close>

definition memcpy_lines :: "int \<Rightarrow> 'r list \<Rightarrow> int \<Rightarrow> int \<Rightarrow> (int \<Rightarrow> 'r) \<Rightarrow> (int \<Rightarrow> 'r)" where
  "memcpy_lines dst scratch src n buf =
     (\<lambda>a. if dst \<le> a \<and> a < dst + n then scratch ! nat (src + (a - dst)) else buf a)"

text \<open>
  The body of the loop of \<open>read_native_scanlines\<close>: \<open>None\<close> is a \<open>break\<close> with a result
  other than \<open>EXR_ERR_SUCCESS\<close>; otherwise the state at the end of the body, before the
  loop's \<open>y += nlines\<close>.
\<close>

definition scan_chunk ::
  "'r exr_scanline_codec \<Rightarrow> ImageSpec \<Rightarrow> int \<Rightarrow> int \<Rightarrow> 'r \<Rightarrow> 'r scan_state
     \<Rightarrow> 'r scan_state option" where
  "scan_chunk codec sp scansperchunk yend blank s =
     (let y = scan_y s;
          invalid = (y - spec_y sp) smod scansperchunk;
          scratch = (invalid \<noteq> 0
                     \<or> (y + scansperchunk > yend
                        \<and> y + scansperchunk < spec_y sp + spec_height sp));
          s = (if invalid \<noteq> 0
               then s\<lparr> fullchunk := resize_rows (nat scansperchunk) blank (fullchunk s),
                        nlines := scansperchunk - invalid, scan_y := y - invalid \<rparr>
               else if y + scansperchunk > yend
                       \<and> y + scansperchunk < spec_y sp + spec_height sp
               then s\<lparr> fullchunk := resize_rows (nat scansperchunk) blank (fullchunk s),
                        nlines := yend - y \<rparr>
               else s\<lparr>nlines := scansperchunk\<rparr>)
      in case read_scanline_block_info codec (scan_y s) of
           None \<Rightarrow> None
         | Some cinfo \<Rightarrow>
             if \<not> (if scan_first s then scan_decoding_initialize codec cinfo
                    else scan_decoding_update codec cinfo)
             then None
             else if scan_first s \<and> \<not> scan_decoding_choose_default_routines codec then None
             else
               (case scan_decoding_run codec cinfo of
                  None \<Rightarrow> None
                | Some rows \<Rightarrow>
                    (let s = (if scratch
                              then s\<lparr>fullchunk := decode_to_scratch rows (fullchunk s)\<rparr>
                              else s\<lparr>scan_buf := decode_to_lines rows (linedata s) (scan_buf s)\<rparr>);
                         s = (if scratch
                              then (let s = s\<lparr>scan_y := scan_y s + invalid\<rparr>;
                                        s = s\<lparr>nlines := min (nlines s) (yend - scan_y s)\<rparr>
                                    in s\<lparr>scan_buf := memcpy_lines (linedata s) (fullchunk s)
                                                        invalid (nlines s) (scan_buf s)\<rparr>)
                              else s)
                     in Some (s\<lparr>scan_first := False, linedata := linedata s + nlines s\<rparr>))))"

text \<open>
  The loop. Its result is the value of \<open>rv == EXR_ERR_SUCCESS\<close> after the loop and the
  last state. The test \<open>0 < scansperchunk\<close> is not in the source: the reader enters the
  loop only with a positive count in the model (see \<open>read_native_scanlines\<close>), and the
  test makes the definition total.
\<close>

function scan_loop ::
  "'r exr_scanline_codec \<Rightarrow> ImageSpec \<Rightarrow> int \<Rightarrow> int \<Rightarrow> 'r \<Rightarrow> 'r scan_state
     \<Rightarrow> bool \<times> 'r scan_state" where
  "scan_loop codec sp scansperchunk yend blank s =
     (if scan_y s < yend \<and> 0 < scansperchunk
      then (case scan_chunk codec sp scansperchunk yend blank s of
              None \<Rightarrow> (False, s)
            | Some s' \<Rightarrow>
                scan_loop codec sp scansperchunk yend blank (s'\<lparr>scan_y := scan_y s' + nlines s'\<rparr>))
      else (True, s))"
  by pat_completeness auto

termination
proof (relation "measure (\<lambda>(codec, sp, scansperchunk, yend, blank, s). nat (yend - scan_y s))")
  show "wf (measure (\<lambda>(codec :: 'r exr_scanline_codec, sp :: ImageSpec, scansperchunk :: int,
                        yend :: int, blank :: 'r, s :: 'r scan_state). nat (yend - scan_y s)))"
    by simp
next
  fix codec :: "'r exr_scanline_codec" and sp :: ImageSpec and scansperchunk yend :: int
    and blank :: 'r and s s' :: "'r scan_state"
  assume run: "scan_y s < yend \<and> 0 < scansperchunk"
    and some: "scan_chunk codec sp scansperchunk yend blank s = Some s'"
  have "(scan_y s - spec_y sp) smod scansperchunk \<in> {- \<bar>scansperchunk\<bar> + 1 .. \<bar>scansperchunk\<bar> - 1}"
    using run by (intro smod_int_range) simp
  then have "(scan_y s - spec_y sp) smod scansperchunk < scansperchunk"
    using run by simp
  then have "scan_y s < scan_y s' + nlines s'"
    using run some
    by (auto simp: scan_chunk_def Let_def split: option.splits if_splits)
  then show "((codec, sp, scansperchunk, yend, blank, s'\<lparr>scan_y := scan_y s' + nlines s'\<rparr>),
              (codec, sp, scansperchunk, yend, blank, s))
             \<in> measure (\<lambda>(codec, sp, scansperchunk, yend, blank, s). nat (yend - scan_y s))"
    using run by simp
qed

text \<open>
  \<open>read_native_scanlines\<close> with a channel range. The result is the return value, the
  reader and the caller's buffer. \<open>None\<close> stands for a call that does not return: the
  seek inside \<open>init_part\<close> does not, or the codec reports a chunk height that is not
  positive, for which the remainder is undefined or the scratch vector cannot be sized.
\<close>

definition read_native_scanlines ::
  "cnh_sort \<Rightarrow> 'r OpenEXRInput \<Rightarrow> int \<Rightarrow> int \<Rightarrow> int \<Rightarrow> int \<Rightarrow> int \<Rightarrow> int \<Rightarrow> 'r \<Rightarrow> (int \<Rightarrow> 'r)
     \<Rightarrow> (bool \<times> 'r OpenEXRInput \<times> (int \<Rightarrow> 'r)) option" where
  "read_native_scanlines srt st subimage miplevel ybegin yend chbegin chend blank buf =
     (case m_exr_context st of
        None \<Rightarrow> Some (False, st\<lparr>m_errors := m_errors st @ [NoOpenFile]\<rparr>, buf)
      | Some ctxt \<Rightarrow>
          (case init_part srt st subimage miplevel of
             None \<Rightarrow> None
           | Some (sp, st) \<Rightarrow>
               (let codec = scanline_codec ctxt subimage
                in case get_scanlines_per_chunk codec of
                     None \<Rightarrow> Some (False, st, buf)
                   | Some scansperchunk \<Rightarrow>
                       if scansperchunk \<le> 0 then None
                       else
                         (let (ok, s) = scan_loop codec sp scansperchunk yend blank
                                          \<lparr> scan_y = ybegin, nlines = scansperchunk,
                                            scan_first = True, linedata = 0, fullchunk = [],
                                            scan_buf = buf \<rparr>
                          in Some (ok, st, scan_buf s)))))"

section \<open>Statements of the specification\<close>

text \<open>
  One halving step as the specification words it: the floor of half the size when
  rounding down, the ceiling when rounding up, and never less than one.
\<close>

definition spec_halve :: "exr_tile_round_mode_t \<Rightarrow> int \<Rightarrow> int" where
  "spec_halve rm w =
     max 1 (if rm = EXR_TILE_ROUND_DOWN then \<lfloor>real_of_int w / 2\<rfloor>
            else \<lceil>real_of_int w / 2\<rceil>)"

text \<open>One round of the loop of \<open>compute_mipres\<close>, on one of the two sizes.\<close>

definition halve_step :: "exr_tile_round_mode_t \<Rightarrow> int \<Rightarrow> int" where
  "halve_step rm w = max 1 (if rm = EXR_TILE_ROUND_DOWN then w sdiv 2 else (w + 1) sdiv 2)"

text \<open>
  The two positional tables as the specification lists them, the presence of a suffix in
  a group, and the position of the first case-insensitive match of a suffix in a table.
\<close>

definition spec_special_table :: "bool \<Rightarrow> string list" where
  "spec_special_table xyz =
     (if xyz
      then [''R'', ''Red'', ''G'', ''Green'', ''B'', ''Blue'', ''X'', ''Y'', ''Z'', ''real'',
            ''imag'', ''A'', ''Alpha'', ''AR'', ''RA'', ''AG'', ''GA'', ''AB'', ''BA'',
            ''Depth'', ''Zback'']
      else [''R'', ''Red'', ''G'', ''Green'', ''B'', ''Blue'', ''Y'', ''real'', ''imag'', ''A'',
            ''Alpha'', ''AR'', ''RA'', ''AG'', ''GA'', ''AB'', ''BA'', ''Z'', ''Depth'',
            ''Zback''])"

definition group_has_suffix :: "string \<Rightarrow> ChanNameHolder list \<Rightarrow> bool" where
  "group_has_suffix nm grp = (\<exists>c \<in> set grp. iequals (suffix c) nm)"

definition first_match_at :: "string list \<Rightarrow> string \<Rightarrow> nat \<Rightarrow> bool" where
  "first_match_at tbl sfx n =
     (n < length tbl \<and> iequals sfx (tbl ! n) \<and> (\<forall>s \<in> set (take n tbl). \<not> iequals sfx s))"


text \<open>
  Subsampled channels of the on-disk list and of the catalogue, the message reported for
  one, and the fields of a catalogue entry that the message prints.
\<close>

definition subsampled :: "exr_attr_chlist_entry_t \<Rightarrow> bool" where
  "subsampled e = (x_sampling e \<noteq> 1 \<or> y_sampling e \<noteq> 1)"

definition subsampling_error :: "exr_attr_chlist_entry_t \<Rightarrow> error_msg" where
  "subsampling_error e = SubsampledChannel (name_str e) (x_sampling e) (y_sampling e)"

definition holder_subsampled :: "ChanNameHolder \<Rightarrow> bool" where
  "holder_subsampled h = (xSampling h \<noteq> 1 \<or> ySampling h \<noteq> 1)"

definition chan_key :: "ChanNameHolder \<Rightarrow> string \<times> int \<times> int" where
  "chan_key c = (fullname c, xSampling c, ySampling c)"

text \<open>The header parse that \<open>seek_subimage\<close> runs for a part.\<close>

definition header_parse :: "cnh_sort \<Rightarrow> 'r OpenEXRInput \<Rightarrow> int \<Rightarrow> bool \<times> PartInfo \<times> error_msg list" where
  "header_parse srt st subimage =
     parse_header srt (context_part (m_exr_context st) subimage) (m_parts st ! nat subimage)
       (m_errors st)"

text \<open>
  The address of a channel inside a pixel of the fill, the color configured for a channel
  (the last configured value for channels beyond the configured ones, as \<open>resize\<close> pads),
  and the cell that a store of a value to a float or half channel leaves.
\<close>

definition channel_offset :: "ImageSpec \<Rightarrow> int \<Rightarrow> int \<Rightarrow> int" where
  "channel_offset sp chbegin ch =
     sum_list (map (\<lambda>c. typedesc_size (channelformat sp c)) [chbegin .. ch - 1])"

definition configured_color :: "real list \<Rightarrow> int \<Rightarrow> real" where
  "configured_color mc ch = (if nat ch < length mc then mc ! nat ch else last mc)"

definition stored :: "TypeDesc \<Rightarrow> real \<Rightarrow> cell" where
  "stored cf v = (if cf = TypeFloat then AsFloat v else AsHalf v)"




section \<open>Example inputs\<close>

definition mip_example_part :: PartInfo where
  "mip_example_part =
     \<lparr> initialized = True, part_spec = ImageSpec_default, topwidth = 100, topheight = 100,
       levelmode = EXR_TILE_MIPMAP_LEVELS, roundingmode = EXR_TILE_ROUND_DOWN,
       cubeface = False, nmiplevels = 8,
       top_datawindow = \<lparr>min_x = 0, min_y = 0, max_x = 99, max_y = 99\<rparr>,
       top_displaywindow = \<lparr>min_x = 0, min_y = 0, max_x = 99, max_y = 99\<rparr>,
       pixeltype = [], chanbytes = [] \<rparr>"

text \<open>A half-float channel without subsampling, as the catalogue first builds it.\<close>

definition chan :: "int \<Rightarrow> string \<Rightarrow> ChanNameHolder" where
  "chan n nm = new_ChanNameHolder n
     \<lparr>name_str = nm, pixel_type = EXR_PIXEL_HALF, x_sampling = 1, y_sampling = 1\<rparr>"

text \<open>
  A sorting procedure that meets the promise of \<open>std::sort\<close>: insertion sort. Run on the
  reversed input it still meets the promise, and it reverses channels that compare equal.
\<close>

fun insert_by :: "('a \<Rightarrow> 'a \<Rightarrow> bool) \<Rightarrow> 'a \<Rightarrow> 'a list \<Rightarrow> 'a list" where
  "insert_by cmp a [] = [a]"
| "insert_by cmp a (b # bs) = (if cmp b a then b # insert_by cmp a bs else a # b # bs)"

definition insertion_sort :: "('a \<Rightarrow> 'a \<Rightarrow> bool) \<Rightarrow> 'a list \<Rightarrow> 'a list" where
  "insertion_sort cmp xs = foldr (insert_by cmp) xs []"


text \<open>
  A file of three parts: an RGB part, a luminance/chroma part whose chroma channels are
  subsampled, and another RGB part. Its chunk codecs fail every call.
\<close>

definition rgb_header :: exr_part where
  "rgb_header =
     \<lparr> get_data_window = Some \<lparr>min_x = 0, min_y = 0, max_x = 15, max_y = 15\<rparr>,
       get_display_window = Some \<lparr>min_x = 0, min_y = 0, max_x = 15, max_y = 15\<rparr>,
       get_storage = Some EXR_STORAGE_SCANLINE,
       get_tile_descriptor = None, get_tile_levels = None,
       get_channels = Some [\<lparr>name_str = ''B'', pixel_type = EXR_PIXEL_HALF, x_sampling = 1, y_sampling = 1\<rparr>,
                            \<lparr>name_str = ''G'', pixel_type = EXR_PIXEL_HALF, x_sampling = 1, y_sampling = 1\<rparr>,
                            \<lparr>name_str = ''R'', pixel_type = EXR_PIXEL_HALF, x_sampling = 1, y_sampling = 1\<rparr>],
       attr_get_envmap = None, get_attributes = True \<rparr>"

definition luma_chroma_entries :: "exr_attr_chlist_entry_t list" where
  "luma_chroma_entries =
     [\<lparr>name_str = ''BY'', pixel_type = EXR_PIXEL_HALF, x_sampling = 2, y_sampling = 2\<rparr>,
      \<lparr>name_str = ''RY'', pixel_type = EXR_PIXEL_HALF, x_sampling = 2, y_sampling = 2\<rparr>,
      \<lparr>name_str = ''Y'', pixel_type = EXR_PIXEL_HALF, x_sampling = 1, y_sampling = 1\<rparr>]"

definition luma_chroma_header :: exr_part where
  "luma_chroma_header = rgb_header\<lparr>get_channels := Some luma_chroma_entries\<rparr>"

definition failing_scanline_codec :: "nat exr_scanline_codec" where
  "failing_scanline_codec =
     \<lparr> get_scanlines_per_chunk = None, read_scanline_block_info = (\<lambda>y. None),
       scan_decoding_initialize = (\<lambda>c. False), scan_decoding_update = (\<lambda>c. False),
       scan_decoding_choose_default_routines = False, scan_decoding_run = (\<lambda>c. None) \<rparr>"

definition failing_tile_codec :: exr_tile_codec where
  "failing_tile_codec =
     \<lparr> get_level_sizes = (\<lambda>l. None), read_tile_block_info = (\<lambda>tx ty l. None),
       decoding_initialize = (\<lambda>c d. None), decoding_update = (\<lambda>c d. None),
       decoding_choose_default_routines = (\<lambda>d. False),
       decoding_run = (\<lambda>d b. (False, b)) \<rparr>"

definition example_file :: "nat exr_context" where
  "example_file =
     \<lparr> get_count = Some 3,
       get_part = (\<lambda>subimage. if subimage = 1 then luma_chroma_header else rgb_header),
       scanline_codec = (\<lambda>subimage. failing_scanline_codec),
       tile_codec = (\<lambda>subimage. failing_tile_codec) \<rparr>"

definition closed_reader :: "nat OpenEXRInput" where
  "closed_reader =
     \<lparr> m_parts = [], m_subimage = 0, m_miplevel = 0, m_exr_context = None,
       m_nsubimages = 0, m_missingcolor = vec_assign [], m_spec = ImageSpec_default,
       m_errors = [] \<rparr>"

text \<open>The reader after \<open>open\<close> on the example file: only the first part is parsed.\<close>

definition rgb_part :: PartInfo where
  "rgb_part =
     \<lparr> initialized = True,
       part_spec =
         \<lparr> spec_x = 0, spec_y = 0, spec_z = 0, spec_width = 16, spec_height = 16, spec_depth = 1,
           full_x = 0, full_y = 0, full_z = 0, full_width = 16, full_height = 16, full_depth = 1,
           tile_width = 0, tile_height = 0, tile_depth = 1, nchannels = 3,
           spec_format = TypeHalf, channelformats = [], channelnames = [''R'', ''G'', ''B''],
           alpha_channel = -1, z_channel = -1, spec_deep = False \<rparr>,
       topwidth = 16, topheight = 16,
       levelmode = EXR_TILE_ONE_LEVEL, roundingmode = EXR_TILE_ROUND_DOWN,
       cubeface = False, nmiplevels = 1,
       top_datawindow = \<lparr>min_x = 0, min_y = 0, max_x = 15, max_y = 15\<rparr>,
       top_displaywindow = \<lparr>min_x = 0, min_y = 0, max_x = 15, max_y = 15\<rparr>,
       pixeltype = [EXR_PIXEL_HALF, EXR_PIXEL_HALF, EXR_PIXEL_HALF], chanbytes = [2, 2, 2] \<rparr>"

definition example_reader :: "nat OpenEXRInput" where
  "example_reader =
     \<lparr> m_parts = [rgb_part, new_PartInfo, new_PartInfo], m_subimage = 0, m_miplevel = 0,
       m_exr_context = Some example_file, m_nsubimages = 3,
       m_missingcolor = vec_assign [], m_spec = part_spec rgb_part, m_errors = [] \<rparr>"

text \<open>The example reader as \<open>open\<close> leaves it for a numeric missing color of three values.\<close>

definition numeric_reader :: "nat OpenEXRInput" where
  "numeric_reader =
     example_reader\<lparr>m_missingcolor :=
        open_missingcolor (\<lambda>s. []) (Some (NumericArray [1, 0, 0])) [] (vec_assign [])\<rparr>"

text \<open>
  The example reader with the missing color \<open>-0.5, 0.5, 0.5\<close>, as \<open>open\<close> captures it from
  the string form of the attribute.
\<close>

definition fill_reader :: "nat OpenEXRInput" where
  "fill_reader = example_reader\<lparr>m_missingcolor := vec_assign [- (1 / 2), 1 / 2, 1 / 2]\<rparr>"






section \<open>Mip level sizes\<close>

lemma sdiv2_max: "max 1 ((w::int) sdiv 2) = max 1 (w div 2)"
  by (cases "0 \<le> w") (auto simp: signed_divide_int_def sgn_if max_def)

lemma floor_half: "\<lfloor>real_of_int w / 2\<rfloor> = w div 2"
  by (simp add: floor_divide_of_int_eq[of w 2, simplified])

lemma ceil_half: "\<lceil>real_of_int w / 2\<rceil> = (w + 1) div 2"
proof -
  have "real_of_int w / 2 = real_of_int w / real_of_int 2" by simp
  then have "\<lceil>real_of_int w / 2\<rceil> = - (- w div 2)"
    using ceiling_divide_eq_div[of w 2] by simp
  also have "\<dots> = (w + 1) div 2" by presburger
  finally show ?thesis .
qed

lemma halve_step_spec: "halve_step rm w = spec_halve rm w"
  unfolding halve_step_def spec_halve_def using sdiv2_max[of w] sdiv2_max[of "w + 1"]
  by (simp add: floor_half ceil_half)

lemma mip_halve_nat:
  "mip_halve rm (int n) w h = Some ((halve_step rm ^^ n) w, (halve_step rm ^^ n) h)"
proof (induction n arbitrary: w h)
  case 0
  show ?case by (subst mip_halve.simps) simp
next
  case (Suc n)
  have "mip_halve rm (int (Suc n)) w h
          = mip_halve rm (int n) (halve_step rm w) (halve_step rm h)"
    by (subst mip_halve.simps) (simp add: halve_step_def)
  then show ?case using Suc by (simp add: funpow_swap1)
qed

text \<open>
  C6. For a part in mipmap level mode and a level \<open>miplevel \<ge> 0\<close>, \<open>compute_mipres\<close>
  returns, and the width and height it writes are the top width and height halved
  \<open>miplevel\<close> times, each step being the specification's step: floor of half when rounding
  down, ceiling of half when rounding up, clamped to at least one.
\<close>

theorem compute_mipres_mipmap:
  assumes "levelmode part = EXR_TILE_MIPMAP_LEVELS" and "0 \<le> miplevel"
  shows "\<exists>sp'. compute_mipres part miplevel sp = Some sp'
           \<and> spec_width sp' = (spec_halve (roundingmode part) ^^ nat miplevel) (topwidth part)
           \<and> spec_height sp' = (spec_halve (roundingmode part) ^^ nat miplevel) (topheight part)"
proof -
  have step: "halve_step (roundingmode part) = spec_halve (roundingmode part)"
    by (rule ext) (rule halve_step_spec)
  have "mip_halve (roundingmode part) miplevel (topwidth part) (topheight part)
          = Some ((spec_halve (roundingmode part) ^^ nat miplevel) (topwidth part),
                  (spec_halve (roundingmode part) ^^ nat miplevel) (topheight part))"
    using mip_halve_nat[of "roundingmode part" "nat miplevel" "topwidth part" "topheight part"]
      assms(2) by (simp add: step)
  then show ?thesis
    using assms(1) by (simp add: compute_mipres_def Let_def)
qed

theorem compute_mipres_mipmap_witness:
  "levelmode mip_example_part = EXR_TILE_MIPMAP_LEVELS \<and> (0::int) \<le> 7
   \<and> (\<exists>sp'. compute_mipres mip_example_part 1 ImageSpec_default = Some sp'
          \<and> spec_width sp' = 50 \<and> spec_height sp' = 50)
   \<and> (\<exists>sp'. compute_mipres mip_example_part 2 ImageSpec_default = Some sp'
          \<and> spec_width sp' = 25 \<and> spec_height sp' = 25)
   \<and> (\<exists>sp'. compute_mipres mip_example_part 7 ImageSpec_default = Some sp'
          \<and> spec_width sp' = 1 \<and> spec_height sp' = 1)"
  using compute_mipres_mipmap[of mip_example_part 1 ImageSpec_default]
    compute_mipres_mipmap[of mip_example_part 2 ImageSpec_default]
    compute_mipres_mipmap[of mip_example_part 7 ImageSpec_default]
  by (simp add: mip_example_part_def spec_halve_def eval_nat_numeral)

section \<open>Channel catalogue: special indices\<close>

lemma iequals_sym: "iequals a b = iequals b a"
  by (auto simp: iequals_def)

lemma suffixfound_iff: "suffixfound nm chans = group_has_suffix nm chans"
  by (induction chans) (auto simp: group_has_suffix_def iequals_sym)

lemma special_scan_None: "special_scan tbl i sfx = None \<longleftrightarrow> (\<forall>s \<in> set tbl. \<not> iequals sfx s)"
  by (induction tbl arbitrary: i) auto

lemma special_scan_first_match:
  "first_match_at tbl sfx n \<Longrightarrow> special_scan tbl i sfx = Some (i + int n)"
proof (induction tbl arbitrary: i n)
  case Nil
  then show ?case by (simp add: first_match_at_def)
next
  case (Cons s ss)
  show ?case
  proof (cases n)
    case 0
    with Cons.prems show ?thesis by (simp add: first_match_at_def)
  next
    case (Suc m)
    with Cons.prems have "\<not> iequals sfx s" and "first_match_at ss sfx m"
      by (auto simp: first_match_at_def)
    then show ?thesis using Cons.IH[of m "i + 1"] Suc by simp
  qed
qed

lemma special_tables: "special_xyz = spec_special_table True" "special = spec_special_table False"
  by (simp_all add: special_def special_xyz_def spec_special_table_def)

lemma index_layerspan_nth:
  assumes "k < length grp"
  shows "index_layerspan grp ! k =
     (if group_has_suffix ''X'' grp \<and> (group_has_suffix ''Y'' grp \<or> group_has_suffix ''Z'' grp)
      then compute_special_index_xyz (grp ! k) else compute_special_index (grp ! k))"
  using assms unfolding index_layerspan_def suffixfound_iff by auto

lemma length_index_layerspan: "length (index_layerspan grp) = length grp"
  unfolding index_layerspan_def by simp

lemma table_scan_props:
  "(\<forall>n. first_match_at tbl (suffix ch) n \<longrightarrow>
        (case special_scan tbl 0 (suffix ch) of Some i \<Rightarrow> ch\<lparr>special_index := i\<rparr> | None \<Rightarrow> ch)
          = ch\<lparr>special_index := int n\<rparr>)
   \<and> ((\<forall>s \<in> set tbl. \<not> iequals (suffix ch) s) \<longrightarrow>
        (case special_scan tbl 0 (suffix ch) of Some i \<Rightarrow> ch\<lparr>special_index := i\<rparr> | None \<Rightarrow> ch)
          = ch)"
proof (intro conjI allI impI)
  fix n assume "first_match_at tbl (suffix ch) n"
  then have "special_scan tbl 0 (suffix ch) = Some (int n)"
    using special_scan_first_match[of tbl "suffix ch" n 0] by simp
  then show "(case special_scan tbl 0 (suffix ch) of Some i \<Rightarrow> ch\<lparr>special_index := i\<rparr>
              | None \<Rightarrow> ch) = ch\<lparr>special_index := int n\<rparr>"
    by simp
next
  assume "\<forall>s \<in> set tbl. \<not> iequals (suffix ch) s"
  then have "special_scan tbl 0 (suffix ch) = None"
    by (simp add: special_scan_None)
  then show "(case special_scan tbl 0 (suffix ch) of Some i \<Rightarrow> ch\<lparr>special_index := i\<rparr>
              | None \<Rightarrow> ch) = ch"
    by simp
qed

text \<open>
  C5. In a group of channels (one contiguous same-layer span of \<open>query_channels\<close>), the
  table is the one with X, Y, Z when the group holds the suffix X and at least one of Y
  and Z, compared without regard to case, and the other table otherwise. A channel whose
  suffix first matches the table at position \<open>n\<close> gets \<open>special_index = n\<close>; a channel
  whose suffix matches no entry is left as it is and keeps the sentinel 10000.
\<close>

theorem index_layerspan_special_index:
  assumes "k < length layerspan" and "special_index (layerspan ! k) = 10000"
  shows "let tbl = spec_special_table
                     (group_has_suffix ''X'' layerspan
                      \<and> (group_has_suffix ''Y'' layerspan \<or> group_has_suffix ''Z'' layerspan));
             ch = layerspan ! k;
             ch' = index_layerspan layerspan ! k
         in length (index_layerspan layerspan) = length layerspan
            \<and> (\<forall>n. first_match_at tbl (suffix ch) n \<longrightarrow> ch' = ch\<lparr>special_index := int n\<rparr>)
            \<and> ((\<forall>s \<in> set tbl. \<not> iequals (suffix ch) s) \<longrightarrow> ch' = ch \<and> special_index ch' = 10000)"
proof -
  define xyz where "xyz = (group_has_suffix ''X'' layerspan
              \<and> (group_has_suffix ''Y'' layerspan \<or> group_has_suffix ''Z'' layerspan))"
  have sel: "index_layerspan layerspan ! k =
               (if xyz then compute_special_index_xyz (layerspan ! k)
                else compute_special_index (layerspan ! k))"
    unfolding xyz_def using assms(1) by (rule index_layerspan_nth)
  have nth: "index_layerspan layerspan ! k =
               (case special_scan (spec_special_table xyz) 0 (suffix (layerspan ! k)) of
                  Some i \<Rightarrow> (layerspan ! k)\<lparr>special_index := i\<rparr>
                | None \<Rightarrow> layerspan ! k)"
    unfolding sel
    by (cases xyz) (simp_all add: compute_special_index_xyz_def compute_special_index_def
        special_tables)
  show ?thesis
    unfolding Let_def xyz_def[symmetric] nth length_index_layerspan
    using table_scan_props[of "spec_special_table xyz" "layerspan ! k"] assms(2)
    by simp
qed

theorem index_layerspan_special_index_witness:
  "(2::nat) < length [chan 0 ''N.X'', chan 1 ''N.Y'', chan 2 ''N.Z'']
   \<and> special_index ([chan 0 ''N.X'', chan 1 ''N.Y'', chan 2 ''N.Z''] ! 2) = 10000
   \<and> special_index (index_layerspan [chan 0 ''N.X'', chan 1 ''N.Y'', chan 2 ''N.Z''] ! 2) = 8"
  using index_layerspan_special_index[of 2 "[chan 0 ''N.X'', chan 1 ''N.Y'', chan 2 ''N.Z'']"]
  by (simp add: chan_def new_ChanNameHolder_def split_name_def group_has_suffix_def
      first_match_at_def spec_special_table_def iequals_def to_lower_def Let_def
      index_layerspan_def compute_special_index_xyz_def special_xyz_def)

section \<open>Channel catalogue: the first sorting pass\<close>

lemma mset_insert_by: "mset (insert_by cmp a bs) = add_mset a (mset bs)"
  by (induction bs) auto

lemma set_insert_by: "set (insert_by cmp a bs) = insert a (set bs)"
  by (induction bs) auto

lemma sorted_insert_by:
  assumes asym: "\<And>a b. cmp a b \<Longrightarrow> \<not> cmp b a"
    and ntr: "\<And>a b c. \<not> cmp b a \<Longrightarrow> \<not> cmp c b \<Longrightarrow> \<not> cmp c a"
    and "sorted_wrt (\<lambda>a b. \<not> cmp b a) bs"
  shows "sorted_wrt (\<lambda>a b. \<not> cmp b a) (insert_by cmp a bs)"
  using assms(3)
proof (induction bs)
  case Nil
  then show ?case by simp
next
  case (Cons b bs)
  show ?case
  proof (cases "cmp b a")
    case True
    then show ?thesis using Cons asym by (auto simp: set_insert_by)
  next
    case False
    then show ?thesis using Cons ntr by auto
  qed
qed

lemma insertion_sort_admits:
  assumes asym: "\<And>a b. cmp a b \<Longrightarrow> \<not> cmp b a"
    and ntr: "\<And>a b c. \<not> cmp b a \<Longrightarrow> \<not> cmp c b \<Longrightarrow> \<not> cmp c a"
  shows "std_sort_admits cmp xs (insertion_sort cmp xs)"
proof -
  have "mset (foldr (insert_by cmp) xs []) = mset xs
        \<and> sorted_wrt (\<lambda>a b. \<not> cmp b a) (foldr (insert_by cmp) xs [])"
    by (induction xs) (auto simp: mset_insert_by intro: sorted_insert_by[OF asym ntr])
  then show ?thesis by (simp add: std_sort_admits_def insertion_sort_def)
qed


lemma compare_cnh_asym: "compare_cnh a b \<Longrightarrow> \<not> compare_cnh b a"
  by (auto simp: compare_cnh_def split: if_splits)

lemma compare_cnh_ntr: "\<not> compare_cnh b a \<Longrightarrow> \<not> compare_cnh c b \<Longrightarrow> \<not> compare_cnh c a"
  by (auto simp: compare_cnh_def split: if_splits)

lemma insertion_sort_ok: "std_sort_ok insertion_sort"
  unfolding std_sort_ok_def
proof (intro allI conjI)
  fix xs
  show "std_sort_admits compare_layer xs (insertion_sort compare_layer xs)"
    by (rule insertion_sort_admits) (auto simp: compare_layer_def)
  show "std_sort_admits compare_cnh xs (insertion_sort compare_cnh xs)"
  proof (rule insertion_sort_admits)
    show "\<And>a b. compare_cnh a b \<Longrightarrow> \<not> compare_cnh b a"
      by (rule compare_cnh_asym)
    show "\<And>a b c. \<not> compare_cnh b a \<Longrightarrow> \<not> compare_cnh c b \<Longrightarrow> \<not> compare_cnh c a"
      by (rule compare_cnh_ntr)
  qed
qed





section \<open>Subsampled channels\<close>

lemma publish_channel_fields:
  "pub_ok (publish_channel t h c st) = (pub_ok st \<and> xSampling h = 1 \<and> ySampling h = 1)"
  "pub_errors (publish_channel t h c st) =
     pub_errors st @ (if xSampling h \<noteq> 1 \<or> ySampling h \<noteq> 1
                      then [SubsampledChannel (fullname h) (xSampling h) (ySampling h)] else [])"
  "initialized (pub_part (publish_channel t h c st)) = initialized (pub_part st)"
  "nmiplevels (pub_part (publish_channel t h c st)) = nmiplevels (pub_part st)"
  by (auto simp: publish_channel_def Let_def)

lemma publish_channels_ok:
  "pub_ok (publish_channels t hs c st) = (pub_ok st \<and> (\<forall>h \<in> set hs. xSampling h = 1 \<and> ySampling h = 1))"
  by (induction hs arbitrary: c st) (auto simp: publish_channel_fields)

lemma publish_channels_errors:
  "set (pub_errors (publish_channels t hs c st)) =
     set (pub_errors st)
     \<union> {SubsampledChannel (fullname h) (xSampling h) (ySampling h) | h.
          h \<in> set hs \<and> holder_subsampled h}"
  by (induction hs arbitrary: c st) (auto simp: publish_channel_fields holder_subsampled_def)

lemma publish_channels_initialized:
  "initialized (pub_part (publish_channels t hs c st)) = initialized (pub_part st)"
  by (induction hs arbitrary: c st) (auto simp: publish_channel_fields)

lemma chan_key_compute:
  "chan_key (compute_special_index c) = chan_key c"
  "chan_key (compute_special_index_xyz c) = chan_key c"
  by (auto simp: chan_key_def compute_special_index_def compute_special_index_xyz_def
      split: option.splits)

lemma chan_key_index_layerspan: "map chan_key (index_layerspan grp) = map chan_key grp"
  by (auto simp: index_layerspan_def chan_key_compute)

lemma srt_mset:
  assumes "std_sort_ok srt"
  shows "mset (srt compare_layer xs) = mset xs" and "mset (srt compare_cnh xs) = mset xs"
  using assms by (auto simp: std_sort_ok_def std_sort_admits_def)

lemma srt_keys:
  assumes "std_sort_ok srt"
  shows "mset (map f (srt compare_layer xs)) = mset (map f xs)"
    and "mset (map f (srt compare_cnh xs)) = mset (map f xs)"
  by (simp_all only: mset_map srt_mset[OF assms])

lemma sort_layers_keys:
  assumes "std_sort_ok srt"
  shows "mset (map chan_key (sort_layers srt xs)) = mset (map chan_key xs)"
  using assms
proof (induction srt xs rule: sort_layers.induct)
  case (1 srt)
  then show ?case by simp
next
  case (2 srt c rest)
  let ?P = "\<lambda>d. layer c = layer d"
  have "mset (map chan_key (sort_layers srt (c # rest)))
          = mset (map chan_key (srt compare_cnh (index_layerspan (c # takeWhile ?P rest))))
            + mset (map chan_key (sort_layers srt (dropWhile ?P rest)))"
    by (simp add: Let_def)
  also have "\<dots> = mset (map chan_key (index_layerspan (c # takeWhile ?P rest)))
                    + mset (map chan_key (dropWhile ?P rest))"
    using "2.IH" "2.prems" by (simp only: srt_keys(2)[OF "2.prems"])
  also have "\<dots> = mset (map chan_key (c # takeWhile ?P rest))
                    + mset (map chan_key (dropWhile ?P rest))"
    by (simp only: chan_key_index_layerspan)
  also have "\<dots> = mset (map chan_key ((c # takeWhile ?P rest) @ dropWhile ?P rest))"
    by (simp only: map_append mset_append)
  also have "(c # takeWhile ?P rest) @ dropWhile ?P rest = c # rest"
    by simp
  finally show ?case .
qed

lemma chan_key_new:
  "length ns = length es \<Longrightarrow>
   map chan_key (map2 new_ChanNameHolder ns es)
     = map (\<lambda>e. (name_str e, x_sampling e, y_sampling e)) es"
  by (induction ns es rule: list_induct2) (auto simp: chan_key_def new_ChanNameHolder_def)

lemma catalogue_keys:
  assumes "std_sort_ok srt"
  shows "set (map chan_key (sort_layers srt (srt compare_layer
            (map2 new_ChanNameHolder (map int [0 ..< length entries]) entries))))
         = (\<lambda>e. (name_str e, x_sampling e, y_sampling e)) ` set entries"
proof -
  define cnh where "cnh = map2 new_ChanNameHolder (map int [0 ..< length entries]) entries"
  have "mset (map chan_key (sort_layers srt (srt compare_layer cnh))) = mset (map chan_key cnh)"
    by (simp only: sort_layers_keys[OF assms] srt_keys(1)[OF assms])
  then have "set (map chan_key (sort_layers srt (srt compare_layer cnh))) = set (map chan_key cnh)"
    by (metis set_mset_mset)
  moreover have "map chan_key cnh = map (\<lambda>e. (name_str e, x_sampling e, y_sampling e)) entries"
    unfolding cnh_def by (rule chan_key_new) simp
  ultimately have "set (map chan_key (sort_layers srt (srt compare_layer cnh)))
                     = set (map (\<lambda>e. (name_str e, x_sampling e, y_sampling e)) entries)"
    by (simp only:)
  then show ?thesis unfolding cnh_def by (simp only: set_map)
qed


lemma query_channels_result:
  assumes "std_sort_ok srt" and "entries \<noteq> []"
  shows "fst (query_channels srt (Some entries) part errs) = (\<forall>e \<in> set entries. \<not> subsampled e)"
    and "set (snd (snd (query_channels srt (Some entries) part errs)))
           = set errs \<union> {subsampling_error e | e. e \<in> set entries \<and> subsampled e}"
    and "initialized (fst (snd (query_channels srt (Some entries) part errs))) = initialized part"
proof -
  define cnh where "cnh = sort_layers srt (srt compare_layer
            (map2 new_ChanNameHolder (map int [0 ..< length entries]) entries))"
  have keys: "chan_key ` set cnh = (\<lambda>e. (name_str e, x_sampling e, y_sampling e)) ` set entries"
    using catalogue_keys[OF assms(1), of entries] unfolding cnh_def by simp
  have all: "(\<forall>h \<in> set cnh. P (chan_key h)) = (\<forall>e \<in> set entries. P (name_str e, x_sampling e, y_sampling e))" for P
    using keys by (metis (mono_tags, lifting) image_iff)
  show "fst (query_channels srt (Some entries) part errs) = (\<forall>e \<in> set entries. \<not> subsampled e)"
    using assms(2) all[of "\<lambda>(n, x, y). x = 1 \<and> y = 1"]
    by (simp add: query_channels_def Let_def cnh_def[symmetric] publish_channels_ok subsampled_def
        chan_key_def)
  have ex: "{SubsampledChannel (fullname h) (xSampling h) (ySampling h) | h.
               h \<in> set cnh \<and> holder_subsampled h}
            = {subsampling_error e | e. e \<in> set entries \<and> subsampled e}" (is "?L = ?R")
  proof -
    have "?L = (\<lambda>(n, x, y). SubsampledChannel n x y) ` {k \<in> chan_key ` set cnh. fst (snd k) \<noteq> 1 \<or> snd (snd k) \<noteq> 1}"
      by (force simp: chan_key_def image_iff holder_subsampled_def)
    also have "\<dots> = ?R"
      unfolding keys by (force simp: subsampling_error_def subsampled_def image_iff)
    finally show ?thesis .
  qed
  show "set (snd (snd (query_channels srt (Some entries) part errs)))
           = set errs \<union> {subsampling_error e | e. e \<in> set entries \<and> subsampled e}"
    using assms(2)
    by (simp add: query_channels_def Let_def cnh_def[symmetric] publish_channels_errors ex)
  show "initialized (fst (snd (query_channels srt (Some entries) part errs))) = initialized part"
    using assms(2)
    by (simp add: query_channels_def Let_def cnh_def[symmetric] publish_channels_initialized)
qed


lemma query_channels_initialized:
  "initialized (fst (snd (query_channels srt chl part errs))) = initialized part"
  by (simp add: query_channels_def Let_def publish_channels_initialized split: option.splits)

lemma parse_header_initialized:
  assumes "\<not> initialized part"
  shows "initialized (fst (snd (parse_header srt hdr part errs)))
           = fst (parse_header srt hdr part errs)"
proof -
  have qc: "\<not> initialized p'" if "query_channels srt chl p e = (b, p', e')" "\<not> initialized p"
    for chl p e b p' e'
    using query_channels_initialized[of srt chl p e] that by simp
  show ?thesis
    using assms
    by (auto simp: parse_header_def Let_def split: option.splits prod.splits bool.splits
        dest!: qc)
qed

lemma parse_header_subsampled:
  assumes "std_sort_ok srt" and "\<not> initialized part" and "get_channels hdr = Some entries"
    and "e \<in> set entries" and "subsampled e"
  shows "fst (parse_header srt hdr part errs) = False"
proof -
  have ne: "entries \<noteq> []" using assms(4) by auto
  have qc: "\<not> b" if "query_channels srt (Some entries) p er = (b, p', e')" for p er b p' e'
    using query_channels_result(1)[OF assms(1) ne, of p er] that assms(4,5) by auto
  show ?thesis
    using assms(2,3)
    by (auto simp: parse_header_def Let_def split: option.splits prod.splits bool.splits
        dest!: qc)
qed

lemma seek_subimage_parse_fails:
  assumes "0 \<le> subimage" and "subimage < m_nsubimages st"
    and "\<not> initialized (m_parts st ! nat subimage)"
    and "fst (parse_header srt (context_part (m_exr_context st) subimage)
               (m_parts st ! nat subimage) (m_errors st)) = False"
  shows "\<exists>part' errs'.
           parse_header srt (context_part (m_exr_context st) subimage)
               (m_parts st ! nat subimage) (m_errors st) = (False, part', errs')
           \<and> seek_subimage srt st subimage miplevel
               = Some (False, st\<lparr>m_parts := (m_parts st)[nat subimage := part'],
                                  m_errors := errs'\<rparr>)"
  using assms
  by (auto simp: seek_subimage_def Let_def split: prod.splits bool.splits)

section \<open>Seeking\<close>

lemma open_example_file:
  "open_reader insertion_sort parse config_mc global_mc True (Some example_file) closed_reader
     = Some (True,
             example_reader\<lparr>m_missingcolor :=
                open_missingcolor parse config_mc global_mc (vec_assign [])\<rparr>,
             Some (part_spec rgb_part))"
  by (simp add: example_reader_def rgb_part_def open_reader_def closed_reader_def example_file_def
  rgb_header_def luma_chroma_header_def luma_chroma_entries_def
  seek_subimage_def parse_header_def query_channels_def context_part_def resize_parts_def
  new_PartInfo_def insertion_sort_def new_ChanNameHolder_def split_name_def
  index_layerspan_def compute_special_index_def special_def iequals_def to_lower_def
  compare_layer_def compare_cnh_def publish_channel_def basetype_merge_def ImageSpec_default_def
  close_reader_def Let_def eval_nat_numeral)

lemma header_parse_initialized:
  "initialized (m_parts st ! nat subimage) \<Longrightarrow>
   header_parse srt st subimage = (True, m_parts st ! nat subimage, m_errors st)"
  by (simp add: header_parse_def parse_header_def)

lemma seek_subimage_out_of_range:
  "subimage < 0 \<or> m_nsubimages st \<le> subimage \<Longrightarrow>
   seek_subimage srt st subimage miplevel = Some (False, st)"
  by (auto simp: seek_subimage_def)

lemma seek_subimage_unparsed:
  assumes "0 \<le> subimage" and "subimage < m_nsubimages st"
    and "\<not> fst (header_parse srt st subimage)"
  shows "\<exists>st'. seek_subimage srt st subimage miplevel = Some (False, st')
           \<and> m_subimage st' = m_subimage st \<and> m_miplevel st' = m_miplevel st
           \<and> m_parts st' = (m_parts st)[nat subimage := fst (snd (header_parse srt st subimage))]
           \<and> m_nsubimages st' = m_nsubimages st \<and> m_exr_context st' = m_exr_context st
           \<and> m_errors st' = snd (snd (header_parse srt st subimage))"
proof -
  have "\<not> initialized (m_parts st ! nat subimage)"
    using assms(3) header_parse_initialized[of st subimage srt] by auto
  then show ?thesis
    using assms
    by (auto simp: seek_subimage_def header_parse_def Let_def split: prod.splits bool.splits)
qed

lemma seek_subimage_bad_miplevel:
  assumes "0 \<le> subimage" and "subimage < m_nsubimages st"
    and "fst (header_parse srt st subimage)"
    and "miplevel < 0 \<or> nmiplevels (fst (snd (header_parse srt st subimage))) \<le> miplevel"
  shows "\<exists>st'. seek_subimage srt st subimage miplevel = Some (False, st')
           \<and> m_subimage st' = subimage \<and> m_miplevel st' = m_miplevel st"
proof (cases "initialized (m_parts st ! nat subimage)")
  case True
  then show ?thesis
    using assms header_parse_initialized[OF True, of srt]
    by (auto simp: seek_subimage_def Let_def)
next
  case False
  then show ?thesis
    using assms
    by (auto simp: seek_subimage_def header_parse_def Let_def split: prod.splits bool.splits)
qed

text \<open>
  C9 (as amended). \<open>seek_subimage\<close> with an out-of-range subimage returns false and leaves
  the reader as it is. With an in-range subimage whose header parse fails (the part is not
  initialized and \<open>parse_header\<close> returns false) it returns false and leaves the current
  subimage and the current miplevel as they are. With an in-range subimage whose part is
  initialized or parses, and an out-of-range miplevel, it returns false, the current
  subimage becomes the requested one and the current miplevel is left as it is.
\<close>

theorem seek_subimage_current:
  "(subimage < 0 \<or> m_nsubimages st \<le> subimage \<longrightarrow>
      seek_subimage srt st subimage miplevel = Some (False, st))
   \<and> (0 \<le> subimage \<and> subimage < m_nsubimages st \<and> \<not> fst (header_parse srt st subimage) \<longrightarrow>
        (\<exists>st'. seek_subimage srt st subimage miplevel = Some (False, st')
             \<and> current_subimage st' = current_subimage st
             \<and> current_miplevel st' = current_miplevel st))
   \<and> (0 \<le> subimage \<and> subimage < m_nsubimages st \<and> fst (header_parse srt st subimage)
        \<and> (miplevel < 0 \<or> nmiplevels (fst (snd (header_parse srt st subimage))) \<le> miplevel) \<longrightarrow>
        (\<exists>st'. seek_subimage srt st subimage miplevel = Some (False, st')
             \<and> current_subimage st' = subimage
             \<and> current_miplevel st' = current_miplevel st))"
  using seek_subimage_out_of_range[of subimage st srt miplevel]
    seek_subimage_unparsed[of subimage st srt miplevel]
    seek_subimage_bad_miplevel[of subimage st srt miplevel]
  unfolding current_subimage_def current_miplevel_def by blast


lemma header_parse_subsampled:
  assumes "std_sort_ok srt" and "\<not> initialized (m_parts st ! nat subimage)"
    and "get_channels (context_part (m_exr_context st) subimage) = Some entries"
    and "e \<in> set entries" and "subsampled e"
  shows "\<not> fst (header_parse srt st subimage)"
    and "\<not> initialized (fst (snd (header_parse srt st subimage)))"
proof -
  show "\<not> fst (header_parse srt st subimage)"
    unfolding header_parse_def using parse_header_subsampled[OF assms] by simp
  then show "\<not> initialized (fst (snd (header_parse srt st subimage)))"
    unfolding header_parse_def using parse_header_initialized[OF assms(2)] by simp
qed

lemma seek_subimage_subsampled:
  assumes "std_sort_ok srt" and "e \<in> set entries" and "subsampled e"
    and "0 \<le> subimage" and "subimage < m_nsubimages st"
    and "subimage < int (length (m_parts st))"
    and "\<not> initialized (m_parts st ! nat subimage)"
    and "get_channels (context_part (m_exr_context st) subimage) = Some entries"
  shows "\<exists>st'. seek_subimage srt st subimage miplevel = Some (False, st')
           \<and> \<not> initialized (m_parts st' ! nat subimage)
           \<and> subimage < m_nsubimages st' \<and> subimage < int (length (m_parts st'))
           \<and> get_channels (context_part (m_exr_context st') subimage) = Some entries"
proof -
  have hp: "\<not> fst (header_parse srt st subimage)"
    "\<not> initialized (fst (snd (header_parse srt st subimage)))"
    using header_parse_subsampled[OF assms(1,7,8,2,3)] by simp_all
  obtain st' where st': "seek_subimage srt st subimage miplevel = Some (False, st')"
    "m_parts st' = (m_parts st)[nat subimage := fst (snd (header_parse srt st subimage))]"
    "m_nsubimages st' = m_nsubimages st" "m_exr_context st' = m_exr_context st"
    using seek_subimage_unparsed[OF assms(4,5) hp(1), of miplevel] by blast
  have "nat subimage < length (m_parts st)" using assms(4,6) by simp
  then have "m_parts st' ! nat subimage = fst (snd (header_parse srt st subimage))"
    using st'(2) by simp
  then show ?thesis using st' hp(2) assms by simp
qed

text \<open>
  C7. If a channel of the part has \<open>x_sampling\<close> or \<open>y_sampling\<close> other than 1, then
  \<open>query_channels\<close> returns false, and the error list it returns holds, for every such
  channel, the message with the channel's name and sampling; and a seek to a part that
  is not initialized and has these channels returns false and leaves the part not
  initialized, as does a second seek after it.
\<close>

theorem subsampled_channels_rejected:
  assumes "std_sort_ok srt" and "e \<in> set entries" and "subsampled e"
  shows "fst (query_channels srt (Some entries) part errs) = False
       \<and> (\<forall>e' \<in> set entries. subsampled e' \<longrightarrow>
             subsampling_error e' \<in> set (snd (snd (query_channels srt (Some entries) part errs))))
       \<and> (\<forall>(st :: 'r OpenEXRInput) subimage miplevel miplevel'.
             0 \<le> subimage \<and> subimage < m_nsubimages st \<and> subimage < int (length (m_parts st))
             \<and> \<not> initialized (m_parts st ! nat subimage)
             \<and> get_channels (context_part (m_exr_context st) subimage) = Some entries \<longrightarrow>
             (\<exists>st'. seek_subimage srt st subimage miplevel = Some (False, st')
                  \<and> \<not> initialized (m_parts st' ! nat subimage)
                  \<and> (\<exists>st''. seek_subimage srt st' subimage miplevel' = Some (False, st'')
                         \<and> \<not> initialized (m_parts st'' ! nat subimage))))"
proof (intro conjI allI impI ballI)
  have ne: "entries \<noteq> []" using assms(2) by auto
  show "fst (query_channels srt (Some entries) part errs) = False"
    using query_channels_result(1)[OF assms(1) ne, of part errs] assms(2,3) by auto
  show "subsampling_error e' \<in> set (snd (snd (query_channels srt (Some entries) part errs)))"
    if "e' \<in> set entries" "subsampled e'" for e'
    using query_channels_result(2)[OF assms(1) ne, of part errs] that by auto
next
  fix st :: "'r OpenEXRInput" and subimage miplevel miplevel'
  assume h: "0 \<le> subimage \<and> subimage < m_nsubimages st \<and> subimage < int (length (m_parts st))
             \<and> \<not> initialized (m_parts st ! nat subimage)
             \<and> get_channels (context_part (m_exr_context st) subimage) = Some entries"
  then obtain st' where st': "seek_subimage srt st subimage miplevel = Some (False, st')"
      "\<not> initialized (m_parts st' ! nat subimage)"
      "subimage < m_nsubimages st'" "subimage < int (length (m_parts st'))"
      "get_channels (context_part (m_exr_context st') subimage) = Some entries"
    using seek_subimage_subsampled[OF assms, of subimage st miplevel] by blast
  then obtain st'' where "seek_subimage srt st' subimage miplevel' = Some (False, st'')"
      "\<not> initialized (m_parts st'' ! nat subimage)"
    using seek_subimage_subsampled[OF assms, of subimage st' miplevel'] h by blast
  with st' show "\<exists>st'. seek_subimage srt st subimage miplevel = Some (False, st')
                  \<and> \<not> initialized (m_parts st' ! nat subimage)
                  \<and> (\<exists>st''. seek_subimage srt st' subimage miplevel' = Some (False, st'')
                         \<and> \<not> initialized (m_parts st'' ! nat subimage))"
    by blast
qed

lemma example_reader_second:
  "\<not> initialized (m_parts example_reader ! nat 1)"
  "get_channels (context_part (m_exr_context example_reader) 1) = Some luma_chroma_entries"
  "m_nsubimages example_reader = 3" "length (m_parts example_reader) = 3"
  "\<lparr>name_str = ''BY'', pixel_type = EXR_PIXEL_HALF, x_sampling = 2, y_sampling = 2\<rparr>
     \<in> set luma_chroma_entries"
  "subsampled \<lparr>name_str = ''BY'', pixel_type = EXR_PIXEL_HALF, x_sampling = 2, y_sampling = 2\<rparr>"
  by (simp_all add: example_reader_def new_PartInfo_def context_part_def example_file_def
      luma_chroma_header_def luma_chroma_entries_def subsampled_def)

theorem subsampled_channels_rejected_witness:
  "std_sort_ok insertion_sort
   \<and> \<lparr>name_str = ''BY'', pixel_type = EXR_PIXEL_HALF, x_sampling = 2, y_sampling = 2\<rparr>
        \<in> set luma_chroma_entries
   \<and> subsampled \<lparr>name_str = ''BY'', pixel_type = EXR_PIXEL_HALF, x_sampling = 2, y_sampling = 2\<rparr>
   \<and> fst (query_channels insertion_sort (Some luma_chroma_entries) new_PartInfo []) = False
   \<and> SubsampledChannel ''BY'' 2 2
        \<in> set (snd (snd (query_channels insertion_sort (Some luma_chroma_entries) new_PartInfo [])))
   \<and> SubsampledChannel ''RY'' 2 2
        \<in> set (snd (snd (query_channels insertion_sort (Some luma_chroma_entries) new_PartInfo [])))
   \<and> (\<exists>st'. seek_subimage insertion_sort example_reader 1 0 = Some (False, st')
          \<and> \<not> initialized (m_parts st' ! nat 1)
          \<and> (\<exists>st''. seek_subimage insertion_sort st' 1 0 = Some (False, st'')
                 \<and> \<not> initialized (m_parts st'' ! nat 1)))"
proof -
  note inst = subsampled_channels_rejected[OF insertion_sort_ok example_reader_second(5,6),
      of new_PartInfo "[]"]
  have a: "fst (query_channels insertion_sort (Some luma_chroma_entries) new_PartInfo []) = False"
    using inst by blast
  have b: "\<forall>e' \<in> set luma_chroma_entries. subsampled e' \<longrightarrow>
             subsampling_error e' \<in> set (snd (snd (query_channels insertion_sort
                (Some luma_chroma_entries) new_PartInfo [])))"
    using inst by blast
  have c: "\<exists>st'. seek_subimage insertion_sort example_reader 1 0 = Some (False, st')
          \<and> \<not> initialized (m_parts st' ! nat 1)
          \<and> (\<exists>st''. seek_subimage insertion_sort st' 1 0 = Some (False, st'')
                 \<and> \<not> initialized (m_parts st'' ! nat 1))"
    using inst[THEN conjunct2, THEN conjunct2, rule_format,
        where st = example_reader and subimage = 1 and miplevel = 0 and miplevel' = 0]
      example_reader_second(1-4) by simp
  have "SubsampledChannel ''BY'' 2 2
        \<in> set (snd (snd (query_channels insertion_sort (Some luma_chroma_entries) new_PartInfo [])))"
    "SubsampledChannel ''RY'' 2 2
        \<in> set (snd (snd (query_channels insertion_sort (Some luma_chroma_entries) new_PartInfo [])))"
    using b by (auto simp: luma_chroma_entries_def subsampled_def subsampling_error_def)
  with a c insertion_sort_ok example_reader_second(5,6) show ?thesis by blast
qed


lemma example_reader_unparsed: "\<not> fst (header_parse insertion_sort example_reader 1)"
  using header_parse_subsampled(1)[OF insertion_sort_ok example_reader_second(1,2,5,6)] .

lemma example_reader_first:
  "header_parse srt example_reader 0 = (True, rgb_part, [])"
  "nmiplevels rgb_part = 1" "m_subimage example_reader = 0" "m_miplevel example_reader = 0"
  using header_parse_initialized[of example_reader 0 srt]
  by (simp_all add: example_reader_def rgb_part_def)

text \<open>
  The claim fails where the header of the requested part does not parse: on the example
  reader (current subimage 0), seeking to subimage 1, which is in range, with the
  out-of-range miplevel \<open>-1\<close> returns false and the current subimage is still 0.
\<close>

theorem seek_subimage_current_counterexample:
  "(0::int) \<le> 1 \<and> 1 < m_nsubimages example_reader \<and> (-1::int) < 0
   \<and> current_subimage example_reader = 0
   \<and> map_option fst (seek_subimage insertion_sort example_reader 1 (-1)) = Some False
   \<and> map_option (current_subimage \<circ> snd) (seek_subimage insertion_sort example_reader 1 (-1))
       = Some 0"
  using seek_subimage_unparsed[of 1 example_reader insertion_sort "-1"]
    example_reader_unparsed example_reader_second(3) example_reader_first(3)
  by (auto simp: current_subimage_def)

lemma query_channels_nmiplevels:
  "nmiplevels (fst (snd (query_channels srt chl part errs))) = nmiplevels part"
proof -
  have "nmiplevels (pub_part (publish_channels t hs c st)) = nmiplevels (pub_part st)"
    for t hs c st
    by (induction hs arbitrary: c st) (auto simp: publish_channel_fields)
  then show ?thesis
    by (simp add: query_channels_def Let_def split: option.splits)
qed

lemma parse_header_scanline_ok:
  assumes "std_sort_ok srt" and "\<not> initialized part"
    and "get_data_window hdr = Some dw" and "get_display_window hdr = Some disp"
    and "get_storage hdr = Some EXR_STORAGE_SCANLINE"
    and "get_channels hdr = Some entries" and "entries \<noteq> []"
    and "\<forall>e \<in> set entries. \<not> subsampled e" and "get_attributes hdr"
  shows "fst (parse_header srt hdr part errs)"
    and "nmiplevels (fst (snd (parse_header srt hdr part errs))) = 1"
proof -
  have qc: "b \<and> nmiplevels p' = nmiplevels p"
    if "query_channels srt (Some entries) p er = (b, p', e')" for p er b p' e'
    using query_channels_result(1)[OF assms(1,7), of p er] assms(8)
      query_channels_nmiplevels[of srt "Some entries" p er] that by simp
  show "fst (parse_header srt hdr part errs)"
    using assms(2-6,9)
    by (auto simp: parse_header_def Let_def split: option.splits prod.splits bool.splits
        dest!: qc)
  show "nmiplevels (fst (snd (parse_header srt hdr part errs))) = 1"
    using assms(2-6,9)
    by (auto simp: parse_header_def Let_def split: option.splits prod.splits bool.splits
        dest!: qc)
qed

lemma example_reader_third:
  "fst (header_parse insertion_sort example_reader 2)"
  "nmiplevels (fst (snd (header_parse insertion_sort example_reader 2))) = 1"
  unfolding header_parse_def
  by (rule parse_header_scanline_ok[OF insertion_sort_ok, where dw = "\<lparr>min_x = 0, min_y = 0, max_x = 15, max_y = 15\<rparr>"
        and disp = "\<lparr>min_x = 0, min_y = 0, max_x = 15, max_y = 15\<rparr>"
        and entries = "the (get_channels rgb_header)"];
      simp add: example_reader_def new_PartInfo_def context_part_def example_file_def
        rgb_header_def subsampled_def)+

theorem seek_subimage_current_witness:
  "(m_nsubimages example_reader \<le> 3
      \<and> seek_subimage insertion_sort example_reader 3 0 = Some (False, example_reader))
   \<and> ((0::int) \<le> 1 \<and> 1 < m_nsubimages example_reader
      \<and> \<not> fst (header_parse insertion_sort example_reader 1)
      \<and> (\<exists>st'. seek_subimage insertion_sort example_reader 1 0 = Some (False, st')
             \<and> current_subimage st' = 0 \<and> current_miplevel st' = 0))
   \<and> ((0::int) \<le> 2 \<and> 2 < m_nsubimages example_reader
      \<and> fst (header_parse insertion_sort example_reader 2)
      \<and> nmiplevels (fst (snd (header_parse insertion_sort example_reader 2))) \<le> 4
      \<and> (\<exists>st'. seek_subimage insertion_sort example_reader 2 4 = Some (False, st')
             \<and> current_subimage st' = 2 \<and> current_miplevel st' = 0))"
  using seek_subimage_current[of 3 example_reader insertion_sort 0]
    seek_subimage_current[of 1 example_reader insertion_sort 0]
    seek_subimage_current[of 2 example_reader insertion_sort 4]
    example_reader_unparsed example_reader_second(3) example_reader_first example_reader_third
  by (simp add: current_subimage_def current_miplevel_def)

section \<open>Missing color given as a numeric array\<close>

lemma fold_vec_set_size:
  "vec_size (fold (\<lambda>i v. vec_set i (f i) v) is v) = vec_size v"
  by (induction "is" arbitrary: v) (auto simp: vec_set_def)

lemma fold_vec_set_capacity:
  "vec_capacity (fold (\<lambda>i v. vec_set i (f i) v) is v) = vec_capacity v"
  by (induction "is" arbitrary: v) (auto simp: vec_set_def)

lemma fold_vec_set_store:
  "distinct is \<Longrightarrow> i \<in> set is \<Longrightarrow> vec_store (fold (\<lambda>i v. vec_set i (f i) v) is v) i = f i"
  "i \<notin> set is \<Longrightarrow> vec_store (fold (\<lambda>i v. vec_set i (f i) v) is v) i = vec_store v i"
  by (induction "is" arbitrary: v) (auto simp: vec_set_def)

lemma open_missingcolor_numeric:
  "vec_size (open_missingcolor extract (Some (NumericArray vals)) global_mc mc) = 0"
  "length vals \<le> vec_capacity (open_missingcolor extract (Some (NumericArray vals)) global_mc mc)"
  "i < length vals \<Longrightarrow>
     vec_store (open_missingcolor extract (Some (NumericArray vals)) global_mc mc) i = vals ! i"
  by (simp_all add: open_missingcolor_def Let_def fold_vec_set_size fold_vec_set_capacity
      fold_vec_set_store vec_reserve_def vec_clear_def)

lemma seek_subimage_missingcolor:
  "seek_subimage srt st subimage miplevel = Some (ok, st') \<Longrightarrow>
   m_missingcolor st' = m_missingcolor st"
  by (auto simp: seek_subimage_def Let_def split: if_splits prod.splits bool.splits option.splits)

lemma open_reader_missingcolor:
  assumes "open_reader srt extract config_mc global_mc io_readable start_read st
             = Some (ok, st', newspec)"
  shows "m_missingcolor st'
           = (if ok then open_missingcolor extract config_mc global_mc (m_missingcolor st)
              else (if io_readable \<and> start_read \<noteq> None \<and> get_count (the start_read) \<noteq> None
                    then vec_clear (open_missingcolor extract config_mc global_mc (m_missingcolor st))
                    else open_missingcolor extract config_mc global_mc (m_missingcolor st)))"
  using assms
  by (auto simp: open_reader_def Let_def close_reader_def
      split: if_splits option.splits prod.splits bool.splits
      dest!: seek_subimage_missingcolor)

lemma check_fill_missing_empty:
  "vec_empty (m_missingcolor st) \<Longrightarrow>
   check_fill_missing st xbegin xend ybegin yend chbegin chend data xstride ystride buf
     = (False, buf)"
  by (simp add: check_fill_missing_def)

text \<open>
  C10. When \<open>"oiio:missingcolor"\<close> is a numeric array, \<open>open\<close> clears the vector,
  reserves room and writes the values through \<open>operator[]\<close>. Whatever \<open>open\<close> returns, the
  reader's missing-color vector then has size zero, so every index written is out of its
  bounds; after a successful \<open>open\<close> the values lie in the reserved storage, beyond the
  size. \<open>check_fill_missing\<close> on that reader returns false and leaves the buffer alone.
\<close>

theorem open_numeric_missingcolor:
  assumes "open_reader srt extract (Some (NumericArray vals)) global_mc io_readable start_read st
             = Some (ok, st', newspec)"
  shows "vec_size (m_missingcolor st') = 0
       \<and> vec_elems (m_missingcolor st') = []
       \<and> (\<forall>i < length vals. \<not> i < vec_size (m_missingcolor st'))
       \<and> (ok \<longrightarrow> length vals \<le> vec_capacity (m_missingcolor st')
                \<and> (\<forall>i < length vals. vec_store (m_missingcolor st') i = vals ! i))
       \<and> check_fill_missing st' xbegin xend ybegin yend chbegin chend data xstride ystride buf
           = (False, buf)"
proof -
  let ?mc = "open_missingcolor extract (Some (NumericArray vals)) global_mc (m_missingcolor st)"
  have mc: "m_missingcolor st' = ?mc \<or> m_missingcolor st' = vec_clear ?mc"
    "ok \<longrightarrow> m_missingcolor st' = ?mc"
    using open_reader_missingcolor[OF assms] by (auto split: if_splits)
  have size: "vec_size (m_missingcolor st') = 0"
    using mc(1) open_missingcolor_numeric(1)[of _ vals global_mc "m_missingcolor st"]
    by (auto simp: vec_clear_def)
  then have "vec_empty (m_missingcolor st')" by (simp add: vec_empty_def)
  then have fill: "check_fill_missing st' xbegin xend ybegin yend chbegin chend data xstride ystride buf
           = (False, buf)"
    by (rule check_fill_missing_empty)
  have "ok \<longrightarrow> length vals \<le> vec_capacity (m_missingcolor st')
                \<and> (\<forall>i < length vals. vec_store (m_missingcolor st') i = vals ! i)"
    using mc(2) open_missingcolor_numeric(2)[of vals _ global_mc "m_missingcolor st"]
      open_missingcolor_numeric(3)[of _ vals _ global_mc "m_missingcolor st"]
    by auto
  with size fill show ?thesis by (simp add: vec_elems_def)
qed


theorem open_numeric_missingcolor_witness:
  "open_reader insertion_sort (\<lambda>s. []) (Some (NumericArray [1, 0, 0])) [] True
       (Some example_file) closed_reader
     = Some (True, numeric_reader, Some (part_spec rgb_part))
   \<and> vec_size (m_missingcolor numeric_reader) = 0
   \<and> vec_store (m_missingcolor numeric_reader) 0 = 1
   \<and> check_fill_missing numeric_reader 0 16 0 16 0 3 0 6 96 (\<lambda>a. Unset) = (False, \<lambda>a. Unset)"
  using open_numeric_missingcolor[OF open_example_file[of "\<lambda>s. []" "Some (NumericArray [1, 0, 0])" "[]"],
      of 0 16 0 16 0 3 0 6 96 "\<lambda>a. Unset"]
    open_example_file[of "\<lambda>s. []" "Some (NumericArray [1, 0, 0])" "[]"]
  by (simp add: numeric_reader_def)

section \<open>Missing-data fill: stripes\<close>

lemma typedesc_size_nonneg: "0 \<le> typedesc_size cf"
  by (cases cf) auto

lemma typedesc_size_pos: "cf \<noteq> TypeUnknown \<Longrightarrow> 0 < typedesc_size cf"
  by (cases cf) auto

lemma fold_frame:
  "(\<And>k b. k \<in> set ks \<Longrightarrow> F k b a = b a) \<Longrightarrow> fold F ks buf a = buf a"
  by (induction ks arbitrary: buf) auto

lemma fill_channel_fst:
  "fst (fold (fill_channel sp mc stripe x y) cs (d, buf))
     = d + sum_list (map (\<lambda>c. typedesc_size (channelformat sp c)) cs)"
  by (induction cs arbitrary: d buf) (auto simp: fill_channel_def Let_def)

lemma fill_channel_frame:
  "a < d \<Longrightarrow> snd (fold (fill_channel sp mc stripe x y) cs (d, buf)) a = buf a"
proof (induction cs arbitrary: d buf)
  case Nil
  then show ?case by simp
next
  case (Cons c cs)
  have "a < d + typedesc_size (channelformat sp c)"
    using Cons.prems typedesc_size_nonneg[of "channelformat sp c"] by simp
  then show ?case
    using Cons.prems Cons.IH[of "d + typedesc_size (channelformat sp c)"]
    by (simp add: fill_channel_def Let_def)
qed

lemma fill_pixel_frame:
  "a < d \<Longrightarrow> fill_pixel sp mc stripe chbegin chend x y d buf a = buf a"
  by (simp add: fill_pixel_def fill_channel_frame)

lemma fill_pixel_value:
  assumes "chbegin \<le> ch" and "ch < chend"
    and "channelformat sp ch = TypeFloat \<or> channelformat sp ch = TypeHalf"
  shows "fill_pixel sp mc stripe chbegin chend x y d buf (d + channel_offset sp chbegin ch)
           = stored (channelformat sp ch)
               (if stripe \<and> (x - y) AND 8 \<noteq> 0 then 0 else mc ! nat ch)"
proof -
  let ?f = "fill_channel sp mc stripe x y"
  let ?pre = "[chbegin .. ch - 1]" and ?post = "[ch + 1 .. chend - 1]"
  have split: "[chbegin .. chend - 1] = ?pre @ ch # ?post"
    using assms(1,2) upto_split3[of chbegin ch "chend - 1"] by simp
  obtain d1 b1 where pre: "fold ?f ?pre (d, buf) = (d1, b1)" by force
  have d1: "d1 = d + channel_offset sp chbegin ch"
    using fill_channel_fst[of sp mc stripe x y ?pre d buf] pre
    by (simp add: channel_offset_def)
  define v where "v = (if stripe \<and> (x - y) AND 8 \<noteq> 0 then 0 else mc ! nat ch)"
  define sz where "sz = typedesc_size (channelformat sp ch)"
  have step: "?f ch (d1, b1) = (d1 + sz, b1(d1 := stored (channelformat sp ch) v))"
    using assms(3) unfolding v_def sz_def by (auto simp: fill_channel_def Let_def stored_def)
  have "d1 < d1 + sz"
    using assms(3) typedesc_size_pos[of "channelformat sp ch"] unfolding sz_def by auto
  then have post: "snd (fold ?f ?post (d1 + sz, b1(d1 := stored (channelformat sp ch) v))) d1
             = stored (channelformat sp ch) v"
    by (simp add: fill_channel_frame)
  have "fold ?f [chbegin .. chend - 1] (d, buf) = fold ?f ?post (?f ch (fold ?f ?pre (d, buf)))"
    unfolding split by simp
  also have "\<dots> = fold ?f ?post (d1 + sz, b1(d1 := stored (channelformat sp ch) v))"
    by (simp only: pre step)
  finally have "fill_pixel sp mc stripe chbegin chend x y d buf d1
                  = stored (channelformat sp ch) v"
    unfolding fill_pixel_def using post by simp
  then show ?thesis unfolding d1 v_def .
qed

lemma channel_offset_next:
  assumes "chbegin \<le> ch" and "ch < chend"
  shows "channel_offset sp chbegin ch + typedesc_size (channelformat sp ch)
           \<le> channel_offset sp chbegin chend"
proof -
  have split: "[chbegin .. chend - 1] = [chbegin .. ch - 1] @ ch # [ch + 1 .. chend - 1]"
    using assms upto_split3[of chbegin ch "chend - 1"] by simp
  have "0 \<le> sum_list (map (\<lambda>c. typedesc_size (channelformat sp c)) [ch + 1 .. chend - 1])"
    by (rule sum_list_nonneg) (auto simp: typedesc_size_nonneg)
  then show ?thesis
    unfolding channel_offset_def split by simp
qed


lemma channel_offset_inside:
  assumes "chbegin \<le> ch" and "ch < chend"
    and "channelformat sp ch = TypeFloat \<or> channelformat sp ch = TypeHalf"
  shows "0 \<le> channel_offset sp chbegin ch"
    and "channel_offset sp chbegin ch < channel_offset sp chbegin chend"
proof -
  show "0 \<le> channel_offset sp chbegin ch"
    unfolding channel_offset_def by (rule sum_list_nonneg) (auto simp: typedesc_size_nonneg)
  have "0 < typedesc_size (channelformat sp ch)"
    using assms(3) by auto
  then show "channel_offset sp chbegin ch < channel_offset sp chbegin chend"
    using channel_offset_next[OF assms(1,2), of sp] by simp
qed

lemma fill_row_frame:
  assumes "0 \<le> xstride" and "a < base" and "\<forall>x \<in> set xl. xbegin \<le> x"
  shows "fold (\<lambda>x. fill_pixel sp mc stripe chbegin chend x y (base + (x - xbegin) * xstride))
           xl buf a = buf a"
proof (rule fold_frame)
  fix k b assume "k \<in> set xl"
  then have "0 \<le> (k - xbegin) * xstride" using assms(1,3) by simp
  then show "fill_pixel sp mc stripe chbegin chend k y (base + (k - xbegin) * xstride) b a = b a"
    using assms(2) by (intro fill_pixel_frame) simp
qed

lemma fill_row_value:
  assumes "xbegin \<le> x" and "x < xend" and "chbegin \<le> ch" and "ch < chend"
    and "channelformat sp ch = TypeFloat \<or> channelformat sp ch = TypeHalf"
    and "channel_offset sp chbegin chend \<le> xstride"
  shows "fold (\<lambda>x. fill_pixel sp mc stripe chbegin chend x y (base + (x - xbegin) * xstride))
           [xbegin .. xend - 1] buf
           (base + (x - xbegin) * xstride + channel_offset sp chbegin ch)
         = stored (channelformat sp ch) (if stripe \<and> (x - y) AND 8 \<noteq> 0 then 0 else mc ! nat ch)"
proof -
  let ?F = "\<lambda>x. fill_pixel sp mc stripe chbegin chend x y (base + (x - xbegin) * xstride)"
  let ?a = "base + (x - xbegin) * xstride + channel_offset sp chbegin ch"
  have off: "0 \<le> channel_offset sp chbegin ch" "channel_offset sp chbegin ch < xstride"
    using channel_offset_inside[OF assms(3,4,5)] assms(6) by simp_all
  have split: "[xbegin .. xend - 1] = [xbegin .. x - 1] @ x # [x + 1 .. xend - 1]"
    using assms(1,2) upto_split3[of xbegin x "xend - 1"] by simp
  have later: "?F k b ?a = b ?a" if "k \<in> set [x + 1 .. xend - 1]" for k b
  proof -
    have "x + 1 \<le> k" using that by simp
    then have "(x - xbegin + 1) * xstride \<le> (k - xbegin) * xstride"
      using off by (intro mult_right_mono) simp_all
    then have "?a < base + (k - xbegin) * xstride"
      using off by (simp add: algebra_simps)
    then show ?thesis by (rule fill_pixel_frame)
  qed
  have "fold ?F [xbegin .. xend - 1] buf ?a
          = fold ?F [x + 1 .. xend - 1] (?F x (fold ?F [xbegin .. x - 1] buf)) ?a"
    unfolding split by simp
  also have "\<dots> = ?F x (fold ?F [xbegin .. x - 1] buf) ?a"
    using later by (rule fold_frame)
  also have "\<dots> = stored (channelformat sp ch)
                      (if stripe \<and> (x - y) AND 8 \<noteq> 0 then 0 else mc ! nat ch)"
    by (rule fill_pixel_value[OF assms(3,4,5)])
  finally show ?thesis .
qed

lemma fill_rows_value:
  assumes "xbegin \<le> x" and "x < xend" and "ybegin \<le> y" and "y < yend"
    and "chbegin \<le> ch" and "ch < chend"
    and "channelformat sp ch = TypeFloat \<or> channelformat sp ch = TypeHalf"
    and "channel_offset sp chbegin chend \<le> xstride"
    and "(xend - xbegin) * xstride \<le> ystride"
  shows "fold (\<lambda>y. fold (\<lambda>x. fill_pixel sp mc stripe chbegin chend x y
                              (data + (y - ybegin) * ystride + (x - xbegin) * xstride))
                     [xbegin .. xend - 1])
           [ybegin .. yend - 1] buf
           (data + (y - ybegin) * ystride + (x - xbegin) * xstride + channel_offset sp chbegin ch)
         = stored (channelformat sp ch) (if stripe \<and> (x - y) AND 8 \<noteq> 0 then 0 else mc ! nat ch)"
proof -
  let ?R = "\<lambda>y. fold (\<lambda>x. fill_pixel sp mc stripe chbegin chend x y
                              (data + (y - ybegin) * ystride + (x - xbegin) * xstride))
                     [xbegin .. xend - 1]"
  let ?a = "data + (y - ybegin) * ystride + (x - xbegin) * xstride + channel_offset sp chbegin ch"
  have off: "0 \<le> channel_offset sp chbegin ch" "channel_offset sp chbegin ch < xstride"
    using channel_offset_inside[OF assms(5,6,7)] assms(8) by simp_all
  then have xs: "0 \<le> xstride" by simp
  have "(x - xbegin + 1) * xstride \<le> (xend - xbegin) * xstride"
    using assms(2) xs by (intro mult_right_mono) simp_all
  then have inrow: "(x - xbegin) * xstride + channel_offset sp chbegin ch < ystride"
    using off assms(9) by (simp add: algebra_simps)
  have "0 \<le> (x - xbegin) * xstride" using assms(1) xs by simp
  then have ys: "0 \<le> ystride" using inrow off by linarith
  have split: "[ybegin .. yend - 1] = [ybegin .. y - 1] @ y # [y + 1 .. yend - 1]"
    using assms(3,4) upto_split3[of ybegin y "yend - 1"] by simp
  have later: "?R k b ?a = b ?a" if "k \<in> set [y + 1 .. yend - 1]" for k b
  proof -
    have "y + 1 \<le> k" using that by simp
    then have "(y - ybegin + 1) * ystride \<le> (k - ybegin) * ystride"
      using ys by (intro mult_right_mono) simp_all
    then have "?a < data + (k - ybegin) * ystride"
      using inrow by (simp add: algebra_simps)
    then show ?thesis
      using xs by (intro fill_row_frame) simp_all
  qed
  have "fold ?R [ybegin .. yend - 1] buf ?a
          = fold ?R [y + 1 .. yend - 1] (?R y (fold ?R [ybegin .. y - 1] buf)) ?a"
    unfolding split by simp
  also have "\<dots> = ?R y (fold ?R [ybegin .. y - 1] buf) ?a"
    using later by (rule fold_frame)
  also have "\<dots> = stored (channelformat sp ch)
                      (if stripe \<and> (x - y) AND 8 \<noteq> 0 then 0 else mc ! nat ch)"
    by (rule fill_row_value[OF assms(1,2,5,6,7,8)])
  finally show ?thesis .
qed


lemma length_resize_float: "length (resize_float n a xs) = n"
  by (auto simp: resize_float_def)

lemma missingcolor_resized:
  assumes "\<not> vec_empty v" and "0 \<le> ch" and "ch < chend"
  shows "resize_float (nat chend) (last (vec_elems v)) (vec_elems v) ! 0 = hd (vec_elems v)"
    and "resize_float (nat chend) (last (vec_elems v)) (vec_elems v) ! nat ch
           = configured_color (vec_elems v) ch"
    and "nat ch < length (resize_float (nat chend) (last (vec_elems v)) (vec_elems v))"
proof -
  have ne: "vec_elems v \<noteq> []"
    using assms(1) by (simp add: vec_empty_def vec_elems_def)
  have lt: "nat ch < nat chend" using assms(2,3) by simp
  show "resize_float (nat chend) (last (vec_elems v)) (vec_elems v) ! 0 = hd (vec_elems v)"
    using ne lt by (cases "vec_elems v") (auto simp: resize_float_def nth_append)
  show "resize_float (nat chend) (last (vec_elems v)) (vec_elems v) ! nat ch
           = configured_color (vec_elems v) ch"
    using lt by (auto simp: resize_float_def nth_append configured_color_def)
  show "nat ch < length (resize_float (nat chend) (last (vec_elems v)) (vec_elems v))"
    using lt by (simp add: length_resize_float)
qed

lemma check_fill_missing_value:
  assumes "\<not> vec_empty (m_missingcolor st)"
    and "0 \<le> chbegin" and "chbegin \<le> ch" and "ch < chend"
    and "xbegin \<le> x" and "x < xend" and "ybegin \<le> y" and "y < yend"
    and "channelformat (m_spec st) ch = TypeFloat \<or> channelformat (m_spec st) ch = TypeHalf"
    and "channel_offset (m_spec st) chbegin chend \<le> xstride"
    and "(xend - xbegin) * xstride \<le> ystride"
  shows "snd (check_fill_missing st xbegin xend ybegin yend chbegin chend data xstride ystride buf)
           (data + (y - ybegin) * ystride + (x - xbegin) * xstride
              + channel_offset (m_spec st) chbegin ch)
         = stored (channelformat (m_spec st) ch)
             (if hd (vec_elems (m_missingcolor st)) < 0 \<and> (x - y) AND 8 \<noteq> 0 then 0
              else if ch = 0 then \<bar>hd (vec_elems (m_missingcolor st))\<bar>
              else configured_color (vec_elems (m_missingcolor st)) ch)"
proof -
  define mc where "mc = resize_float (nat chend) (last (vec_elems (m_missingcolor st)))
                          (vec_elems (m_missingcolor st))"
  define stripe where "stripe = (mc ! 0 < 0)"
  define mc' where "mc' = (if stripe then mc[0 := \<bar>mc ! 0\<bar>] else mc)"
  have ch0: "0 \<le> ch" using assms(2,3) by simp
  note rs = missingcolor_resized[OF assms(1) ch0 assms(4), folded mc_def]
  have stripe: "stripe = (hd (vec_elems (m_missingcolor st)) < 0)"
    unfolding stripe_def rs(1) ..
  have val: "mc' ! nat ch = (if ch = 0 then \<bar>hd (vec_elems (m_missingcolor st))\<bar>
                             else configured_color (vec_elems (m_missingcolor st)) ch)"
  proof (cases "ch = 0")
    case True
    then show ?thesis
      using rs(1,3) stripe by (auto simp: mc'_def)
  next
    case False
    then have "nat ch \<noteq> 0" using ch0 by simp
    then show ?thesis
      using False rs(2) by (auto simp: mc'_def)
  qed
  have "snd (check_fill_missing st xbegin xend ybegin yend chbegin chend data xstride ystride buf)
          = fold (\<lambda>y. fold (\<lambda>x. fill_pixel (m_spec st) mc' stripe chbegin chend x y
                                     (data + (y - ybegin) * ystride + (x - xbegin) * xstride))
                            [xbegin .. xend - 1])
                 [ybegin .. yend - 1] buf"
    using assms(1) by (simp add: check_fill_missing_def Let_def mc_def stripe_def mc'_def)
  then show ?thesis
    using fill_rows_value[OF assms(5,6,7,8,3,4,9,10,11), of mc' stripe data buf]
    by (simp only: val stripe)
qed


lemma check_fill_missing_fst:
  "fst (check_fill_missing st xbegin xend ybegin yend chbegin chend data xstride ystride buf)
     = (\<not> vec_empty (m_missingcolor st))"
  by (simp add: check_fill_missing_def Let_def)

text \<open>
  C1 (as amended). In \<open>check_fill_missing\<close> with a missing color whose first component is
  negative, for a pixel \<open>(x, y)\<close> of the region and a float or half channel \<open>ch\<close> of the
  requested range: if \<open>(x - y) & 8\<close> is nonzero the value written for the channel is 0,
  whichever channel it is; otherwise channel 0 receives the magnitude of the first
  component and every other channel its configured value. The buffer is laid out with a
  pixel stride of at least the pixel's bytes and a row stride of at least the row's.
\<close>

theorem check_fill_missing_stripe:
  assumes "\<not> vec_empty (m_missingcolor st)"
    and "hd (vec_elems (m_missingcolor st)) < 0"
    and "0 \<le> chbegin" and "chbegin \<le> ch" and "ch < chend"
    and "xbegin \<le> x" and "x < xend" and "ybegin \<le> y" and "y < yend"
    and "channelformat (m_spec st) ch = TypeFloat \<or> channelformat (m_spec st) ch = TypeHalf"
    and "channel_offset (m_spec st) chbegin chend \<le> xstride"
    and "(xend - xbegin) * xstride \<le> ystride"
  shows "fst (check_fill_missing st xbegin xend ybegin yend chbegin chend data xstride ystride buf)
       \<and> snd (check_fill_missing st xbegin xend ybegin yend chbegin chend data xstride ystride buf)
           (data + (y - ybegin) * ystride + (x - xbegin) * xstride
              + channel_offset (m_spec st) chbegin ch)
         = stored (channelformat (m_spec st) ch)
             (if (x - y) AND 8 \<noteq> 0 then 0
              else if ch = 0 then \<bar>hd (vec_elems (m_missingcolor st))\<bar>
              else configured_color (vec_elems (m_missingcolor st)) ch)"
  using check_fill_missing_value[OF assms(1,3-12), of data buf] assms(1,2)
  by (simp add: check_fill_missing_fst)

lemma fill_reader_format: "channelformat (m_spec fill_reader) ch = TypeHalf"
  by (auto simp: fill_reader_def example_reader_def rgb_part_def channelformat_def)

lemma fill_reader_facts:
  "\<not> vec_empty (m_missingcolor fill_reader)"
  "vec_elems (m_missingcolor fill_reader) = [- (1 / 2), 1 / 2, 1 / 2]"
  "channel_offset (m_spec fill_reader) 0 0 = 0"
  "channel_offset (m_spec fill_reader) 0 1 = 2"
  "channel_offset (m_spec fill_reader) 0 2 = 4"
  "channel_offset (m_spec fill_reader) 0 3 = 6"
  by (simp_all add: fill_reader_format channel_offset_def upto.simps)
     (simp_all add: fill_reader_def vec_empty_def vec_elems_def vec_assign_def eval_nat_numeral)

text \<open>
  The claim fails for channels other than 0: with missing color \<open>-0.5, 0.5, 0.5\<close> and the
  pixel \<open>(9, 1)\<close>, where \<open>(9 - 1) & 8\<close> is 8, the value written for channel 1 is 0 and not
  its configured 0.5.
\<close>

theorem check_fill_missing_stripe_counterexample:
  "hd (vec_elems (m_missingcolor fill_reader)) < 0
   \<and> (9 - 1) AND 8 \<noteq> (0::int)
   \<and> configured_color (vec_elems (m_missingcolor fill_reader)) 1 = 1 / 2
   \<and> snd (check_fill_missing fill_reader 9 10 1 2 0 3 0 6 6 (\<lambda>a. Unset)) 2 = AsHalf 0
   \<and> snd (check_fill_missing fill_reader 9 10 1 2 0 3 0 6 6 (\<lambda>a. Unset)) 2 \<noteq> AsHalf (1 / 2)"
  using check_fill_missing_value[of fill_reader 0 1 3 9 9 10 1 1 2 6 6 0 "\<lambda>a. Unset"]
  by (simp add: fill_reader_facts fill_reader_format configured_color_def stored_def)

theorem check_fill_missing_stripe_witness:
  "\<not> vec_empty (m_missingcolor fill_reader)
   \<and> hd (vec_elems (m_missingcolor fill_reader)) < 0
   \<and> channel_offset (m_spec fill_reader) 0 3 \<le> 6 \<and> (4 - 0) * 6 \<le> (24::int)
   \<and> snd (check_fill_missing fill_reader 0 4 0 4 0 3 0 6 24 (\<lambda>a. Unset)) 90 = AsHalf (1 / 2)
   \<and> snd (check_fill_missing fill_reader 8 12 0 4 0 3 0 6 24 (\<lambda>a. Unset)) 30 = AsHalf 0
   \<and> snd (check_fill_missing fill_reader 8 12 0 4 0 3 0 6 24 (\<lambda>a. Unset)) 34 = AsHalf 0"
  using check_fill_missing_stripe[of fill_reader 0 0 3 0 3 4 0 3 4 6 24 0 "\<lambda>a. Unset"]
    check_fill_missing_stripe[of fill_reader 0 0 3 8 9 12 0 1 4 6 24 0 "\<lambda>a. Unset"]
    check_fill_missing_stripe[of fill_reader 0 2 3 8 9 12 0 1 4 6 24 0 "\<lambda>a. Unset"]
  by (simp add: fill_reader_facts fill_reader_format configured_color_def stored_def)

section \<open>Tile reads: failures stay with their tile\<close>


















end
